theory Spec2Isabelle
  imports Main "HOL-Library.Word"
begin

section \<open>JavaScript strings\<close>

text \<open>
  A JavaScript string is a sequence of UTF-16 code units. A regular expression without
  the \<open>u\<close> flag matches over the code units, one with the \<open>u\<close> flag over the code points
  (a surrogate pair is one character). The matcher below runs on a list of natural numbers,
  which is one or the other view of the string.
\<close>

type_synonym jschar = "16 word"
type_synonym jsstring = "16 word list"

definition js :: "string \<Rightarrow> jsstring" where
  "js cs = map (\<lambda>c. of_nat (of_char c)) cs"

definition isHighSurrogate :: "jschar \<Rightarrow> bool" where
  "isHighSurrogate u = (0xD800 \<le> unat u \<and> unat u \<le> 0xDBFF)"

definition isLowSurrogate :: "jschar \<Rightarrow> bool" where
  "isLowSurrogate u = (0xDC00 \<le> unat u \<and> unat u \<le> 0xDFFF)"

fun codePoints :: "jsstring \<Rightarrow> nat list" where
  "codePoints [] = []"
| "codePoints [u] = [unat u]"
| "codePoints (h # l # us) =
     (if isHighSurrogate h \<and> isLowSurrogate l
      then (0x10000 + (unat h - 0xD800) * 0x400 + (unat l - 0xDC00)) # codePoints us
      else unat h # codePoints (l # us))"

definition codeUnitsOf :: "nat \<Rightarrow> jsstring" where
  "codeUnitsOf cp =
     (if cp < 0x10000 then [of_nat cp]
      else [of_nat (0xD800 + (cp - 0x10000) div 0x400), of_nat (0xDC00 + (cp - 0x10000) mod 0x400)])"

definition toInput :: "bool \<Rightarrow> jsstring \<Rightarrow> nat list" where
  "toInput fullUnicode s = (if fullUnicode then codePoints s else map unat s)"

definition fromInput :: "bool \<Rightarrow> nat list \<Rightarrow> jsstring" where
  "fromInput fullUnicode cs = (if fullUnicode then concat (map codeUnitsOf cs) else map of_nat cs)"

section \<open>Regular expressions\<close>

datatype cesc = Digit | NonDigit | WordChar | NonWordChar | Space | NonSpace | Letter

datatype citem = CChar nat | CRange nat nat | CEsc cesc

datatype regex =
    Empty
  | Chr nat
  | Dot
  | Esc cesc
  | Set bool "citem list"
  | Bol
  | Eol
  | Seq regex regex
  | Alt regex regex
  | Rep nat "nat option" bool regex
  | Group nat regex
  | Ahead bool regex
  | Behind bool regex

record regexp =
  source :: regex
  global :: bool
  ignoreCase :: bool
  unicode :: bool

definition seq :: "regex list \<Rightarrow> regex" where
  "seq rs = foldr Seq rs Empty"

definition isDigit :: "nat \<Rightarrow> bool" where
  "isDigit c = (0x30 \<le> c \<and> c \<le> 0x39)"

definition isWordChar :: "nat \<Rightarrow> bool" where
  "isWordChar c = ((0x61 \<le> c \<and> c \<le> 0x7A) \<or> (0x41 \<le> c \<and> c \<le> 0x5A) \<or> isDigit c \<or> c = 0x5F)"

definition isLineTerminator :: "nat \<Rightarrow> bool" where
  "isLineTerminator c = (c = 0x0A \<or> c = 0x0D \<or> c = 0x2028 \<or> c = 0x2029)"

definition isSpace :: "nat \<Rightarrow> bool" where
  "isSpace c = ((0x09 \<le> c \<and> c \<le> 0x0D) \<or> c = 0x20 \<or> c = 0xA0 \<or> c = 0x1680
      \<or> (0x2000 \<le> c \<and> c \<le> 0x200A) \<or> c = 0x2028 \<or> c = 0x2029 \<or> c = 0x202F
      \<or> c = 0x205F \<or> c = 0x3000 \<or> c = 0xFEFF)"

fun escMatches :: "(nat \<Rightarrow> bool) \<Rightarrow> cesc \<Rightarrow> nat \<Rightarrow> bool" where
  "escMatches L Digit c = isDigit c"
| "escMatches L NonDigit c = (\<not> isDigit c)"
| "escMatches L WordChar c = isWordChar c"
| "escMatches L NonWordChar c = (\<not> isWordChar c)"
| "escMatches L Space c = isSpace c"
| "escMatches L NonSpace c = (\<not> isSpace c)"
| "escMatches L Letter c = L c"

fun itemMatches :: "(nat \<Rightarrow> bool) \<Rightarrow> nat \<Rightarrow> citem \<Rightarrow> bool" where
  "itemMatches L c (CChar x) = (c = x)"
| "itemMatches L c (CRange lo hi) = (lo \<le> c \<and> c \<le> hi)"
| "itemMatches L c (CEsc e) = escMatches L e c"

definition canonicalize :: "nat \<Rightarrow> nat" where
  "canonicalize c = (if 0x61 \<le> c \<and> c \<le> 0x7A then c - 0x20 else c)"

definition charEq :: "bool \<Rightarrow> nat \<Rightarrow> nat \<Rightarrow> bool" where
  "charEq ic x ch = (if ic then canonicalize x = canonicalize ch else x = ch)"

type_synonym caps = "nat \<Rightarrow> (nat \<times> nat) option"

fun groupsOf :: "regex \<Rightarrow> nat list" where
  "groupsOf (Seq a b) = groupsOf a @ groupsOf b"
| "groupsOf (Alt a b) = groupsOf a @ groupsOf b"
| "groupsOf (Rep mn mx g r) = groupsOf r"
| "groupsOf (Group k r) = k # groupsOf r"
| "groupsOf (Ahead pos r) = groupsOf r"
| "groupsOf (Behind pos r) = groupsOf r"
| "groupsOf _ = []"

definition clearCaps :: "regex \<Rightarrow> caps \<Rightarrow> caps" where
  "clearCaps r c = (\<lambda>k. if k \<in> set (groupsOf r) then None else c k)"

definition step :: "bool \<Rightarrow> (nat \<Rightarrow> bool) \<Rightarrow> nat list \<Rightarrow> nat \<Rightarrow> caps \<Rightarrow> (nat \<times> caps) list" where
  "step fw P s i c =
     (if fw then (if i < length s \<and> P (s ! i) then [(Suc i, c)] else [])
      else (if 0 < i \<and> i \<le> length s \<and> P (s ! (i - 1)) then [(i - 1, c)] else []))"

definition look :: "bool \<Rightarrow> (nat \<times> caps) list \<Rightarrow> nat \<Rightarrow> caps \<Rightarrow> (nat \<times> caps) list" where
  "look pos res i c =
     (case res of
        [] \<Rightarrow> (if pos then [] else [(i, c)])
      | (_, c') # _ \<Rightarrow> (if pos then [(i, c')] else []))"

definition repResult :: "nat \<Rightarrow> bool \<Rightarrow> nat \<times> caps \<Rightarrow> (nat \<times> caps) list \<Rightarrow> (nat \<times> caps) list" where
  "repResult mn greedy x iter =
     (if 0 < mn then iter else if greedy then iter @ [x] else x # iter)"

fun repMin :: "regex \<Rightarrow> nat" where
  "repMin (Rep mn mx g r) = mn"
| "repMin _ = 0"

function ms :: "(nat \<Rightarrow> bool) \<Rightarrow> bool \<Rightarrow> bool \<Rightarrow> regex \<Rightarrow> nat list \<Rightarrow> nat \<Rightarrow> caps \<Rightarrow> (nat \<times> caps) list" where
  "ms L ic fw Empty s i c = [(i, c)]"
| "ms L ic fw (Chr ch) s i c = step fw (\<lambda>x. charEq ic x ch) s i c"
| "ms L ic fw Dot s i c = step fw (\<lambda>x. \<not> isLineTerminator x) s i c"
| "ms L ic fw (Esc e) s i c = step fw (escMatches L e) s i c"
| "ms L ic fw (Set neg items) s i c = step fw (\<lambda>x. list_ex (itemMatches L x) items \<noteq> neg) s i c"
| "ms L ic fw Bol s i c = (if i = 0 then [(i, c)] else [])"
| "ms L ic fw Eol s i c = (if i = length s then [(i, c)] else [])"
| "ms L ic fw (Seq a b) s i c =
     (if fw then concat (map (\<lambda>(j, c'). ms L ic fw b s j c') (ms L ic fw a s i c))
      else concat (map (\<lambda>(j, c'). ms L ic fw a s j c') (ms L ic fw b s i c)))"
| "ms L ic fw (Alt a b) s i c = ms L ic fw a s i c @ ms L ic fw b s i c"
| "ms L ic fw (Group k r) s i c =
     map (\<lambda>(j, c'). (j, c'(k \<mapsto> (if fw then (i, j) else (j, i))))) (ms L ic fw r s i c)"
| "ms L ic fw (Rep mn mx g r) s i c =
     (if mx = Some 0 then [(i, c)]
      else repResult mn g (i, c)
        (concat (map (\<lambda>(j, c').
            if mn = 0 \<longrightarrow> (if fw then i < j \<and> j \<le> length s else j < i)
            then ms L ic fw (Rep (mn - 1) (map_option (\<lambda>m. m - 1) mx) g r) s j c' else [])
          (ms L ic fw r s i (clearCaps r c)))))"
| "ms L ic fw (Ahead pos r) s i c = look pos (ms L ic True r s i c) i c"
| "ms L ic fw (Behind pos r) s i c = look pos (ms L ic False r s i c) i c"
  by pat_completeness auto
termination
  by (relation "measures [\<lambda>(L, ic, fw, r, s, i, c). size r, \<lambda>(L, ic, fw, r, s, i, c). repMin r,
        \<lambda>(L, ic, fw, r, s, i, c). if fw then length s - i else i]") auto

function search :: "(nat \<Rightarrow> bool) \<Rightarrow> bool \<Rightarrow> regex \<Rightarrow> nat list \<Rightarrow> nat \<Rightarrow> (nat \<times> nat \<times> caps) option" where
  "search L ic r s p =
     (if length s < p then None
      else (case ms L ic True r s p (\<lambda>k. None) of
              (e, c) # _ \<Rightarrow> Some (p, e, c)
            | [] \<Rightarrow> search L ic r s (Suc p)))"
  by pat_completeness auto
termination
  by (relation "measure (\<lambda>(L, ic, r, s, p). Suc (length s) - p)") auto


lemma search_bounds: "search L ic r s p = Some (q, e, c) \<Longrightarrow> p \<le> q \<and> q \<le> length s"
proof (induction L ic r s p rule: search.induct)
  case (1 L ic r s p)
  show ?case
  proof (cases "ms L ic True r s p (\<lambda>k. None)")
    case Nil
    with "1.prems" have le: "\<not> length s < p" and rec: "search L ic r s (Suc p) = Some (q, e, c)"
      by (auto simp: search.simps [of L ic r s p] split: if_splits)
    from "1.IH" [OF le Nil rec] show ?thesis by simp
  next
    case (Cons x xs)
    with "1.prems" show ?thesis
      by (cases x) (auto simp: search.simps [of L ic r s p] split: if_splits)
  qed
qed

function allMatches :: "(nat \<Rightarrow> bool) \<Rightarrow> bool \<Rightarrow> regex \<Rightarrow> nat list \<Rightarrow> nat \<Rightarrow> (nat \<times> nat \<times> caps) list" where
  "allMatches L ic r s p =
     (case search L ic r s p of
        None \<Rightarrow> []
      | Some (q, e, c) \<Rightarrow> (q, e, c) # allMatches L ic r s (if e \<le> q then Suc q else e))"
  by pat_completeness auto
termination
proof (relation "measure (\<lambda>(L, ic, r, s, p). Suc (length s) - p)", goal_cases)
  case 1
  show ?case by simp
next
  case (2 L ic r s p x q y e c)
  then have "search L ic r s p = Some (q, e, c)" by simp
  from search_bounds [OF this] show ?case by auto
qed

declare search.simps [simp del] allMatches.simps [simp del]

section \<open>Replacement\<close>

datatype error = TypeError | InvalidCharacterError

datatype fn = DateHyphens | FigureDashes | EncodeLink | EncodePath | DecodePath | DecodeLink

datatype replacer = Template jsstring | Function fn

definition slice :: "nat list \<Rightarrow> nat \<Rightarrow> nat \<Rightarrow> nat list" where
  "slice s b e = take (e - b) (drop b s)"

definition capture :: "bool \<Rightarrow> nat list \<Rightarrow> caps \<Rightarrow> nat \<Rightarrow> jsstring option" where
  "capture u s c k = map_option (\<lambda>(b, e). fromInput u (slice s b e)) (c k)"

definition groupCount :: "regex \<Rightarrow> nat" where
  "groupCount r = length (groupsOf r)"

definition digitValue :: "jschar \<Rightarrow> nat" where
  "digitValue d = unat d - 0x30"

definition captureText :: "jsstring option list \<Rightarrow> nat \<Rightarrow> jsstring" where
  "captureText cs n = (case cs ! (n - 1) of None \<Rightarrow> [] | Some t \<Rightarrow> t)"

fun getSubstitution :: "jsstring \<Rightarrow> jsstring \<Rightarrow> jsstring \<Rightarrow> jsstring option list \<Rightarrow> jsstring \<Rightarrow> jsstring" where
  "getSubstitution m preceding following cs [] = []"
| "getSubstitution m preceding following cs [x] = [x]"
| "getSubstitution m preceding following cs (x # y # t) =
     (if x \<noteq> 0x24 then x # getSubstitution m preceding following cs (y # t)
      else if y = 0x24 then 0x24 # getSubstitution m preceding following cs t
      else if y = 0x60 then preceding @ getSubstitution m preceding following cs t
      else if y = 0x26 then m @ getSubstitution m preceding following cs t
      else if y = 0x27 then following @ getSubstitution m preceding following cs t
      else if isDigit (unat y) then
        (case t of
           z # t' \<Rightarrow>
             if isDigit (unat z) \<and> 10 * digitValue y + digitValue z \<le> length cs
             then (if 1 \<le> 10 * digitValue y + digitValue z
                   then captureText cs (10 * digitValue y + digitValue z) @ getSubstitution m preceding following cs t'
                   else x # y # z # getSubstitution m preceding following cs t')
             else if 1 \<le> digitValue y \<and> digitValue y \<le> length cs
             then captureText cs (digitValue y) @ getSubstitution m preceding following cs t
             else x # y # getSubstitution m preceding following cs t
         | [] \<Rightarrow>
             if 1 \<le> digitValue y \<and> digitValue y \<le> length cs
             then captureText cs (digitValue y) else [x, y])
      else x # getSubstitution m preceding following cs (y # t))"


section \<open>Host built-ins used by the replacer functions\<close>

text \<open>
  Three things are left to the JavaScript host: the Unicode table behind \<open>\p{L}\<close>;
  whether \<open>Date.parse\<close> accepts a day that the month does not have (V8 accepts
  \<open>2023-02-30\<close>, SpiderMonkey does not); and whether \<open>Date.parse\<close>, given a string that is
  not an ISO date because its month is not 01 to 12 or its day not 01 to 31, falls back to the
  legacy parser of V8, which reads the numbers as month, day and year (V8 accepts \<open>0001-13\<close>
  as the 13th of January 2001 and \<open>0001-01-00\<close> as the 1st of January 2000).
\<close>

record host =
  isLetter :: "nat \<Rightarrow> bool"
  lenientDays :: bool
  legacyDates :: bool

definition b64char :: "nat \<Rightarrow> nat" where
  "b64char n =
     (if n < 26 then 0x41 + n else if n < 52 then 0x61 + (n - 26)
      else if n < 62 then 0x30 + (n - 52) else if n = 62 then 0x2B else 0x2F)"

fun b64encode :: "nat list \<Rightarrow> nat list" where
  "b64encode [] = []"
| "b64encode [a] = [b64char (a div 4), b64char ((a mod 4) * 16), 0x3D, 0x3D]"
| "b64encode [a, b] =
     [b64char (a div 4), b64char ((a mod 4) * 16 + b div 16), b64char ((b mod 16) * 4), 0x3D]"
| "b64encode (a # b # c # t) =
     [b64char (a div 4), b64char ((a mod 4) * 16 + b div 16),
      b64char ((b mod 16) * 4 + c div 64), b64char (c mod 64)] @ b64encode t"

definition btoa :: "jsstring \<Rightarrow> error + jsstring" where
  "btoa s =
     (if list_ex (\<lambda>u. 0xFF < unat u) s then Inl InvalidCharacterError
      else Inr (map of_nat (b64encode (map unat s))))"

definition isB64 :: "nat \<Rightarrow> bool" where
  "isB64 c = ((0x41 \<le> c \<and> c \<le> 0x5A) \<or> (0x61 \<le> c \<and> c \<le> 0x7A) \<or> isDigit c \<or> c = 0x2B \<or> c = 0x2F)"

definition b64value :: "nat \<Rightarrow> nat" where
  "b64value c =
     (if 0x41 \<le> c \<and> c \<le> 0x5A then c - 0x41
      else if 0x61 \<le> c \<and> c \<le> 0x7A then c - 0x61 + 26
      else if isDigit c then c - 0x30 + 52
      else if c = 0x2B then 62 else 63)"

fun b64decode :: "nat list \<Rightarrow> nat list" where
  "b64decode (a # b # c # d # t) =
     [a * 4 + b div 16, (b mod 16) * 16 + c div 4, (c mod 4) * 64 + d] @ b64decode t"
| "b64decode [a, b, c] = [a * 4 + b div 16, (b mod 16) * 16 + c div 4]"
| "b64decode [a, b] = [a * 4 + b div 16]"
| "b64decode _ = []"

definition isAsciiWhitespace :: "nat \<Rightarrow> bool" where
  "isAsciiWhitespace c = (c = 0x09 \<or> c = 0x0A \<or> c = 0x0C \<or> c = 0x0D \<or> c = 0x20)"

definition stripPadding :: "nat list \<Rightarrow> nat list" where
  "stripPadding d =
     (if length d mod 4 = 0 then
        (if 2 \<le> length d \<and> d ! (length d - 1) = 0x3D \<and> d ! (length d - 2) = 0x3D then take (length d - 2) d
         else if 1 \<le> length d \<and> d ! (length d - 1) = 0x3D then take (length d - 1) d
         else d)
      else d)"

definition atob :: "jsstring \<Rightarrow> error + jsstring" where
  "atob s =
     (let d = stripPadding (filter (\<lambda>c. \<not> isAsciiWhitespace c) (map unat s)) in
      if length d mod 4 = 1 \<or> list_ex (\<lambda>c. \<not> isB64 c) d then Inl InvalidCharacterError
      else Inr (map of_nat (b64decode (map b64value d))))"

definition isLeapYear :: "nat \<Rightarrow> bool" where
  "isLeapYear y = (y mod 4 = 0 \<and> (y mod 100 \<noteq> 0 \<or> y mod 400 = 0))"

definition daysInMonth :: "nat \<Rightarrow> nat \<Rightarrow> nat" where
  "daysInMonth y m =
     (if m = 2 then (if isLeapYear y then 29 else 28)
      else if m = 4 \<or> m = 6 \<or> m = 9 \<or> m = 11 then 30 else 31)"

definition number :: "nat list \<Rightarrow> nat" where
  "number ds = foldl (\<lambda>n d. 10 * n + (d - 0x30)) 0 ds"

text \<open>
  \<open>Date.parse\<close> on the strings that reach it, which the date rule's pattern has matched:
  \<open>YYYY-MM\<close> or \<open>YYYY-MM-DD\<close>. When the month is 01 to 12 and the day, if there is one,
  01 to 31, the string is an ISO date and the result is a number, not \<open>NaN\<close>; a strict host
  also wants a day of that month. Otherwise the result is \<open>NaN\<close>, unless the host falls back
  to the legacy parser: that one reads the first number as the month when it is 1 to 31, the
  second as the day and the third (or 1) as the year, and returns a number when the month is
  1 to 12 and the day 1 to 31; a first number not 1 to 31 is read as the year, and the month
  or day that was no ISO month or day gives \<open>NaN\<close>.
\<close>

definition dateParses :: "host \<Rightarrow> jsstring \<Rightarrow> bool" where
  "dateParses H d =
     (let s = map unat d; y = number (take 4 s); m = number (take 2 (drop 5 s));
          day = number (take 2 (drop 8 s)) in
      list_all isDigit (take 4 s) \<and> length s \<in> {7, 10} \<and> s ! 4 = 0x2D
      \<and> list_all isDigit (take 2 (drop 5 s))
      \<and> (length s = 10 \<longrightarrow> s ! 7 = 0x2D \<and> list_all isDigit (drop 8 s))
      \<and> (if 1 \<le> m \<and> m \<le> 12 \<and> (length s = 10 \<longrightarrow> 1 \<le> day \<and> day \<le> 31)
         then length s = 10 \<longrightarrow> lenientDays H \<or> day \<le> daysInMonth y m
         else legacyDates H \<and> 1 \<le> y \<and> y \<le> 12 \<and> 1 \<le> m \<and> m \<le> 31))"

definition replaceAll :: "jschar \<Rightarrow> jschar \<Rightarrow> jsstring \<Rightarrow> jsstring" where
  "replaceAll a b s = map (\<lambda>x. if x = a then b else x) s"

definition argument :: "jsstring option list \<Rightarrow> nat \<Rightarrow> jsstring option" where
  "argument cs k = (if k < length cs then cs ! k else None)"

definition toString :: "jsstring option \<Rightarrow> jsstring" where
  "toString v = (case v of None \<Rightarrow> js ''undefined'' | Some t \<Rightarrow> t)"

definition orDefault :: "jsstring option \<Rightarrow> jsstring \<Rightarrow> jsstring" where
  "orDefault v d = (case v of None \<Rightarrow> d | Some t \<Rightarrow> t)"

fun callFunction :: "host \<Rightarrow> fn \<Rightarrow> jsstring \<Rightarrow> jsstring option list \<Rightarrow> error + jsstring" where
  "callFunction H DateHyphens potentialDate cs =
     (if \<not> dateParses H potentialDate then Inr potentialDate
      else Inr (replaceAll 0x2D 0x2010 potentialDate))"
| "callFunction H FigureDashes groupedDigits cs = Inr (replaceAll 0x2D 0x2012 groupedDigits)"
| "callFunction H EncodeLink m cs =
     (case btoa (toString (argument cs 0)) of
        Inl e \<Rightarrow> Inl e
      | Inr url \<Rightarrow> Inr ([0x5B] @ url @ orDefault (argument cs 1) [] @ [0x5D]))"
| "callFunction H EncodePath m cs = btoa (toString (argument cs 0))"
| "callFunction H DecodePath m cs = atob (toString (argument cs 0))"
| "callFunction H DecodeLink m cs =
     (case atob (toString (argument cs 0)) of
        Inl e \<Rightarrow> Inl e
      | Inr url \<Rightarrow> Inr ([0x5B] @ url @ orDefault (argument cs 1) [] @ [0x5D]))"

section \<open>String.prototype.replace with a regular expression\<close>

definition replacement :: "host \<Rightarrow> bool \<Rightarrow> nat \<Rightarrow> replacer \<Rightarrow> nat list \<Rightarrow> nat \<times> nat \<times> caps \<Rightarrow> error + jsstring" where
  "replacement H u n rep s m =
     (case m of (q, e, c) \<Rightarrow>
        (case rep of
           Template t \<Rightarrow>
             Inr (getSubstitution (fromInput u (slice s q e)) (fromInput u (take q s))
                    (fromInput u (drop e s)) (map (capture u s c) [1..<Suc n]) t)
         | Function f \<Rightarrow>
             callFunction H f (fromInput u (slice s q e)) (map (capture u s c) [1..<Suc n])))"

fun substitute :: "host \<Rightarrow> bool \<Rightarrow> nat \<Rightarrow> replacer \<Rightarrow> nat list \<Rightarrow> nat \<Rightarrow> (nat \<times> nat \<times> caps) list \<Rightarrow> error + jsstring" where
  "substitute H u n rep s pos [] = Inr (fromInput u (drop pos s))"
| "substitute H u n rep s pos (m # found) =
     (case replacement H u n rep s m of
        Inl err \<Rightarrow> Inl err
      | Inr t \<Rightarrow>
          (case substitute H u n rep s (fst (snd m)) found of
             Inl err \<Rightarrow> Inl err
           | Inr rest \<Rightarrow> Inr (fromInput u (slice s pos (fst m)) @ t @ rest)))"

definition replace :: "host \<Rightarrow> jsstring \<Rightarrow> regexp \<Rightarrow> replacer \<Rightarrow> error + jsstring" where
  "replace H value rx rep =
     (let s = toInput (unicode rx) value;
          found = allMatches (isLetter H) (ignoreCase rx) (source rx) s 0
      in substitute H (unicode rx) (groupCount (source rx)) rep s 0
           (if global rx then found else take 1 found))"

section \<open>transform\<close>

datatype rule = Rule (searchValueOf: regexp) (replaceValueOf: replacer)

fun transform :: "host \<Rightarrow> jsstring \<Rightarrow> rule list \<Rightarrow> error + jsstring" where
  "transform H value [] = Inr value"
| "transform H value (Rule searchValue replaceValue # substitutionRules) =
     (case replace H value searchValue replaceValue of
        Inl e \<Rightarrow> Inl e
      | Inr v \<Rightarrow> transform H v substitutionRules)"


section \<open>The rule tables\<close>

definition rx :: "regex \<Rightarrow> string \<Rightarrow> regexp" where
  "rx r flags = \<lparr>source = r, global = (CHR ''g'' \<in> set flags),
     ignoreCase = (CHR ''i'' \<in> set flags), unicode = (CHR ''u'' \<in> set flags)\<rparr>"

definition plus :: "regex \<Rightarrow> regex" where
  "plus r = Rep 1 None True r"

definition lazyPlus :: "regex \<Rightarrow> regex" where
  "lazyPlus r = Rep 1 None False r"

definition optional :: "regex \<Rightarrow> regex" where
  "optional r = Rep 0 (Some 1) True r"

definition exactly :: "nat \<Rightarrow> regex \<Rightarrow> regex" where
  "exactly n r = Rep n (Some n) True r"

definition notLetterOrDigit :: regex where
  "notLetterOrDigit = Set True [CEsc Letter, CEsc Digit]"

definition doubleQuotedText :: regexp where
  "doubleQuotedText = rx (seq [Behind True (Alt notLetterOrDigit Bol), Chr 0x22,
      Group 1 (lazyPlus Dot), Chr 0x22, Ahead True (Alt notLetterOrDigit Eol)]) ''ug''"

definition specialCaseN :: regexp where
  "specialCaseN = rx (seq [Behind True (Alt (Esc NonWordChar) Bol), Chr 0x27,
      Group 1 (Chr 0x6E), Chr 0x27, Ahead True (Alt (Esc NonWordChar) Eol)]) ''ig''"

definition singleQuotedText :: regexp where
  "singleQuotedText = rx (seq [Behind True (Alt notLetterOrDigit Bol), Chr 0x27,
      Group 1 (lazyPlus Dot), Chr 0x27, Ahead True (Alt notLetterOrDigit Eol)]) ''ug''"

definition doublePrimes :: regexp where
  "doublePrimes = rx (seq [Group 1 (plus (Esc Digit)), Chr 0x22]) ''g''"

definition singlePrimes :: regexp where
  "singlePrimes = rx (seq [Group 1 (plus (Esc Digit)), Chr 0x27, Group 2 (plus (Esc Digit))]) ''g''"

definition apostrophes :: regexp where
  "apostrophes = rx (Chr 0x27) ''g''"

definition ellipses :: regexp where
  "ellipses = rx (seq [Behind False (Chr 0x2E), exactly 3 (Chr 0x2E), Ahead False (Chr 0x2E)]) ''g''"

definition dashSeparator :: regexp where
  "dashSeparator = rx (seq [Chr 0x20, Chr 0x2D, Chr 0x20]) ''g''"

definition isoDates :: regexp where
  "isoDates = rx (seq [exactly 4 (Esc Digit), Chr 0x2D, exactly 2 (Esc Digit),
      optional (seq [Chr 0x2D, exactly 2 (Esc Digit)]), Ahead True (Alt (Esc NonWordChar) Eol)]) ''g''"

definition groupedDigits :: regexp where
  "groupedDigits = rx (seq [plus (Esc Digit),
      Rep 2 None True (Group 1 (seq [Chr 0x2D, plus (Esc Digit)]))]) ''g''"

definition ranges :: regexp where
  "ranges = rx (seq [Group 1 (plus (Esc Digit)), Chr 0x2D, Group 2 (plus (Esc Digit))]) ''g''"

definition hyphens :: regexp where
  "hyphens = rx (seq [Behind True (Esc NonSpace), Chr 0x2D, Ahead True (Esc NonSpace)]) ''g''"

text \<open>The default punctuation rules, in the order of the array literal.\<close>

definition defaultRules :: "rule list" where
  "defaultRules =
    [Rule doubleQuotedText (Template (0x201C # js ''$1'' @ [0x201D])),
     Rule specialCaseN (Template (0x2019 # js ''$1'' @ [0x2019])),
     Rule singleQuotedText (Template (0x2018 # js ''$1'' @ [0x2019])),
     Rule doublePrimes (Template (js ''$1'' @ [0x2033])),
     Rule singlePrimes (Template (js ''$1'' @ [0x2032] @ js ''$2'')),
     Rule apostrophes (Template [0x2019]),
     Rule ellipses (Template [0x2026]),
     Rule dashSeparator (Template [0x20, 0x2013, 0x20]),
     Rule isoDates (Function DateHyphens),
     Rule groupedDigits (Function FigureDashes),
     Rule ranges (Template (js ''$1'' @ [0x2013] @ js ''$2'')),
     Rule hyphens (Template [0x2010])]"

text \<open>Language-specific replace values for the overridable rules (own properties of the object).\<close>

definition languageSpecificOverrides :: "jsstring \<Rightarrow> jsstring list option" where
  "languageSpecificOverrides key =
     (if key = js ''en'' then Some [0x201C # js ''$1'' @ [0x201D], 0x2018 # js ''$1'' @ [0x2019]]
      else if key = js ''fr'' then Some [[0xAB] @ js '' $1 '' @ [0xBB], [0x2039] @ js '' $1 '' @ [0x203A]]
      else if key = js ''de'' then Some [0x201E # js ''$1'' @ [0x201C], 0x201A # js ''$1'' @ [0x2018]]
      else if key = js ''he'' then Some [0x201D # js ''$1'' @ [0x201D], 0x2019 # js ''$1'' @ [0x2019], [0x05F3], [0x05BE]]
      else None)"

definition overrideRuleIndices :: "nat list" where
  "overrideRuleIndices = [0, 2, 5, 11]"

definition abbreviatedCompounds :: regexp where
  "abbreviatedCompounds = rx (Alt (seq [Group 1 (plus (Esc WordChar)), Chr 0x2D, Group 2 (Esc Space)])
      (seq [Group 3 (Esc Space), Chr 0x2D, Group 4 (plus (Esc WordChar))])) ''g''"

definition dashBrackets :: regexp where
  "dashBrackets = rx (seq [Behind True (Alt notLetterOrDigit Bol), Chr 0x2D,
      Group 1 (lazyPlus Dot), Chr 0x2D, Ahead True (Alt notLetterOrDigit Eol)]) ''ug''"

definition hebrewAcronyms :: regexp where
  "hebrewAcronyms = rx (seq [Behind True (Esc NonSpace), Chr 0x22, Ahead True (Esc NonSpace)]) ''g''"

definition germanRules :: "rule list" where
  "germanRules = [Rule abbreviatedCompounds (Template (js ''$1$3'' @ [0x2010] @ js ''$2$4''))]"

definition japaneseRules :: "rule list" where
  "japaneseRules = [Rule dashBrackets (Template (0x2013 # js ''$1'' @ [0x2013]))]"

definition hebrewRules :: "rule list" where
  "hebrewRules = [Rule hebrewAcronyms (Template [0x05F4])]"

definition base64Class :: regex where
  "base64Class = Set False [CRange 0x41 0x5A, CRange 0x61 0x7A, CRange 0x30 0x39,
      CChar 0x2B, CChar 0x2F, CChar 0x3D]"

definition labeledLink :: regexp where
  "labeledLink = rx (seq [Chr 0x5B, Group 1 (lazyPlus Dot),
      optional (Group 2 (seq [Chr 0x7C, lazyPlus Dot])), Chr 0x5D]) ''g''"

definition plainTextURL :: regexp where
  "plainTextURL = rx (seq [Behind True (seq [Chr 0x2F, Chr 0x2F]), Group 1 (plus (Esc NonSpace))]) ''g''"

definition encodedPlainTextURL :: regexp where
  "encodedPlainTextURL = rx (seq [Behind True (seq [Chr 0x2F, Chr 0x2F]), Group 1 (plus base64Class)]) ''g''"

definition encodedLabeledLink :: regexp where
  "encodedLabeledLink = rx (seq [Chr 0x5B, Group 1 (plus base64Class),
      optional (Group 2 (seq [Chr 0x7C, lazyPlus Dot])), Chr 0x5D]) ''g''"

definition literal :: "string \<Rightarrow> regexp" where
  "literal cs = rx (seq (map (\<lambda>c. Chr (of_char c)) cs)) ''g''"

definition protectRules :: "rule list" where
  "protectRules =
    [Rule labeledLink (Function EncodeLink),
     Rule plainTextURL (Function EncodePath),
     Rule (literal [CHR 0x27, CHR 0x27, CHR 0x27]) (Template (js ''<b>'')),
     Rule (literal [CHR 0x27, CHR 0x27]) (Template (js ''<i>''))]"

definition restoreRules :: "rule list" where
  "restoreRules =
    [Rule (literal ''<b>'') (Template (js [CHR 0x27, CHR 0x27, CHR 0x27])),
     Rule (literal ''<i>'') (Template (js [CHR 0x27, CHR 0x27])),
     Rule encodedPlainTextURL (Function DecodePath),
     Rule encodedLabeledLink (Function DecodeLink)]"


section \<open>The store of rule arrays\<close>

text \<open>
  A substitution rule is a two-element array and a rule set is an array of references to
  such arrays; both are mutable objects. The store is the list of the allocated objects,
  an address is an index into it, and allocation appends.
\<close>

datatype obj = RuleObj rule | ListObj "nat list"

type_synonym heap = "obj list"

definition lookup :: "heap \<Rightarrow> nat \<Rightarrow> obj option" where
  "lookup h a = (if a < length h then Some (h ! a) else None)"

text \<open>
  The objects the module creates when it is loaded: the twelve default rules and their array
  \<open>punctuationRules\<close>, the arrays of \<open>languageSpecificRules\<close> for \<open>de\<close>, \<open>ja\<close> and \<open>he\<close>, and
  \<open>transformationRulesToPreserveMarkup\<close>, whose spread element shares the default rules.
\<close>

definition moduleHeap :: heap where
  "moduleHeap =
     map RuleObj defaultRules @ [ListObj [0..<12]]
     @ map RuleObj germanRules @ [ListObj [13]]
     @ map RuleObj japaneseRules @ [ListObj [15]]
     @ map RuleObj hebrewRules @ [ListObj [17]]
     @ map RuleObj protectRules @ map RuleObj restoreRules
     @ [ListObj ([19, 20, 21, 22] @ [0..<12] @ [23, 24, 25, 26])]"

definition punctuationRules :: nat where
  "punctuationRules = 12"

definition languageSpecificRules :: "jsstring \<Rightarrow> nat option" where
  "languageSpecificRules key =
     (if key = js ''de'' then Some 14 else if key = js ''ja'' then Some 16
      else if key = js ''he'' then Some 18 else None)"

definition transformationRulesToPreserveMarkup :: nat where
  "transformationRulesToPreserveMarkup = 27"

text \<open>
  Reading a property of an object literal also finds the properties inherited from
  \<open>Object.prototype\<close>; none of those has a \<open>forEach\<close> method.
\<close>

datatype 'a property = Own 'a | Inherited | Missing

definition objectPrototypeKeys :: "jsstring list" where
  "objectPrototypeKeys = map js [''constructor'', ''hasOwnProperty'', ''isPrototypeOf'',
     ''propertyIsEnumerable'', ''toLocaleString'', ''toString'', ''valueOf'', ''__proto__'',
     ''__defineGetter__'', ''__defineSetter__'', ''__lookupGetter__'', ''__lookupSetter__'']"

definition getProperty :: "(jsstring \<Rightarrow> 'a option) \<Rightarrow> jsstring \<Rightarrow> 'a property" where
  "getProperty own key =
     (case own key of
        Some v \<Rightarrow> Own v
      | None \<Rightarrow> if key \<in> set objectPrototypeKeys then Inherited else Missing)"

definition propertyKey :: "jsstring option \<Rightarrow> jsstring" where
  "propertyKey language = (case language of None \<Rightarrow> js ''undefined'' | Some l \<Rightarrow> l)"

section \<open>punctuationRulesForLanguage\<close>

fun copyRules :: "heap \<Rightarrow> nat \<Rightarrow> nat list \<Rightarrow> error + heap \<times> nat list" where
  "copyRules h index [] = Inr (h, [])"
| "copyRules h index (rule # rest) =
     (if index \<in> set overrideRuleIndices then
        (case lookup h rule of
           None \<Rightarrow> Inl TypeError
         | Some v \<Rightarrow>
             (case copyRules (h @ [v]) (Suc index) rest of
                Inl e \<Rightarrow> Inl e
              | Inr (h', rules) \<Rightarrow> Inr (h', length h # rules)))
      else
        (case copyRules h (Suc index) rest of
           Inl e \<Rightarrow> Inl e
         | Inr (h', rules) \<Rightarrow> Inr (h', rule # rules)))"

definition setReplaceValue :: "heap \<Rightarrow> nat \<Rightarrow> replacer \<Rightarrow> error + heap" where
  "setReplaceValue h a v =
     (case lookup h a of
        Some (RuleObj (Rule searchValue _)) \<Rightarrow> Inr (h[a := RuleObj (Rule searchValue v)])
      | _ \<Rightarrow> Inl TypeError)"

fun overwrite :: "heap \<Rightarrow> nat \<Rightarrow> nat \<Rightarrow> jsstring list \<Rightarrow> error + heap" where
  "overwrite h rules index [] = Inr h"
| "overwrite h rules index (v # values) =
     (case lookup h rules of
        Some (ListObj refs) \<Rightarrow>
          (if index < length overrideRuleIndices \<and> overrideRuleIndices ! index < length refs then
             (case setReplaceValue h (refs ! (overrideRuleIndices ! index)) (Template v) of
                Inl e \<Rightarrow> Inl e
              | Inr h' \<Rightarrow> overwrite h' rules (Suc index) values)
           else Inl TypeError)
      | _ \<Rightarrow> Inl TypeError)"

fun push :: "heap \<Rightarrow> nat \<Rightarrow> nat list \<Rightarrow> error + heap" where
  "push h rules [] = Inr h"
| "push h rules (rule # rest) =
     (case lookup h rules of
        Some (ListObj refs) \<Rightarrow> push (h[rules := ListObj (refs @ [rule])]) rules rest
      | _ \<Rightarrow> Inl TypeError)"

definition punctuationRulesForLanguage :: "heap \<Rightarrow> jsstring option \<Rightarrow> error + heap \<times> nat" where
  "punctuationRulesForLanguage h language =
     (case lookup h punctuationRules of
        Some (ListObj defaults) \<Rightarrow>
          (case copyRules h 0 defaults of
             Inl e \<Rightarrow> Inl e
           | Inr (h1, copied) \<Rightarrow>
               (let rules = length h1; h2 = h1 @ [ListObj copied] in
                case (case getProperty languageSpecificOverrides (propertyKey language) of
                        Missing \<Rightarrow> Inr h2
                      | Inherited \<Rightarrow> Inl TypeError
                      | Own values \<Rightarrow> overwrite h2 rules 0 values) of
                  Inl e \<Rightarrow> Inl e
                | Inr h3 \<Rightarrow>
                    (case (case getProperty languageSpecificRules (propertyKey language) of
                             Missing \<Rightarrow> Inr h3
                           | Inherited \<Rightarrow> Inl TypeError
                           | Own extra \<Rightarrow>
                               (case lookup h3 extra of
                                  Some (ListObj refs) \<Rightarrow> push h3 rules refs
                                | _ \<Rightarrow> Inl TypeError)) of
                       Inl e \<Rightarrow> Inl e
                     | Inr h4 \<Rightarrow> Inr (h4, rules))))
      | _ \<Rightarrow> Inl TypeError)"

text \<open>The rules an array holds, as \<open>transform\<close> reads them.\<close>

definition ruleAt :: "heap \<Rightarrow> nat \<Rightarrow> rule option" where
  "ruleAt h a = (case lookup h a of Some (RuleObj r) \<Rightarrow> Some r | _ \<Rightarrow> None)"

definition rulesAt :: "heap \<Rightarrow> nat \<Rightarrow> rule list option" where
  "rulesAt h a = (case lookup h a of Some (ListObj refs) \<Rightarrow> those (map (ruleAt h) refs) | _ \<Rightarrow> None)"


section \<open>General facts about strings and matching\<close>

lemmas rx_defs = rx_def seq_def plus_def lazyPlus_def optional_def exactly_def notLetterOrDigit_def
  doubleQuotedText_def specialCaseN_def singleQuotedText_def doublePrimes_def singlePrimes_def
  apostrophes_def ellipses_def dashSeparator_def isoDates_def groupedDigits_def ranges_def hyphens_def

lemmas eval_defs = replace_def toInput_def fromInput_def js_def step_def look_def repResult_def
  charEq_def isDigit_def isWordChar_def isSpace_def isLineTerminator_def clearCaps_def
  replacement_def slice_def capture_def groupCount_def digitValue_def captureText_def
  replaceAll_def dateParses_def number_def daysInMonth_def isLeapYear_def
  isHighSurrogate_def isLowSurrogate_def codeUnitsOf_def canonicalize_def
  search.simps allMatches.simps

lemmas markup_defs = labeledLink_def plainTextURL_def encodedPlainTextURL_def encodedLabeledLink_def
  literal_def base64Class_def

lemmas fn_defs = btoa_def atob_def b64char_def b64value_def isB64_def isAsciiWhitespace_def
  stripPadding_def argument_def toString_def orDefault_def

lemma unat_of_nat_round: "(of_nat (unat (u::16 word)) :: 16 word) = u"
  by simp

lemma codeUnitsOf_pair:
  assumes "isHighSurrogate h" "isLowSurrogate l"
  shows "codeUnitsOf (0x10000 + (unat h - 0xD800) * 0x400 + (unat l - 0xDC00)) = [h, l]"
proof -
  from assms have hb: "0xD800 \<le> unat h" and lb: "0xDC00 \<le> unat l" and lu: "unat l - 0xDC00 < 0x400"
    by (auto simp: isHighSurrogate_def isLowSurrogate_def)
  have d: "((unat h - 0xD800) * 0x400 + (unat l - 0xDC00)) div 0x400 = unat h - 0xD800"
    using lu by simp
  have m: "((unat h - 0xD800) * 0x400 + (unat l - 0xDC00)) mod 0x400 = unat l - 0xDC00"
    using lu by simp
  have e: "0x10000 + (unat h - 0xD800) * 0x400 + (unat l - 0xDC00) - 0x10000
      = (unat h - 0xD800) * 0x400 + (unat l - 0xDC00)" by simp
  have h': "(of_nat (0xD800 + (unat h - 0xD800)) :: 16 word) = h" using hb by simp
  have l': "(of_nat (0xDC00 + (unat l - 0xDC00)) :: 16 word) = l" using lb by simp
  show ?thesis
    unfolding codeUnitsOf_def e d m using h' l' by simp
qed

lemma codeUnitsOf_single: "codeUnitsOf (unat (u::16 word)) = [u]"
proof -
  have "unat u < 0x10000" using unsigned_less [of u] by simp
  then show ?thesis by (simp add: codeUnitsOf_def)
qed

lemma codePoints_roundtrip: "concat (map codeUnitsOf (codePoints s)) = s"
  by (induction s rule: codePoints.induct) (simp_all add: codeUnitsOf_pair codeUnitsOf_single)

lemma fromInput_toInput: "fromInput u (toInput u s) = s"
  by (simp add: fromInput_def toInput_def codePoints_roundtrip comp_def)

lemma codePoints_mem: "ch < 0x10000 \<Longrightarrow> ch \<in> set (codePoints s) \<Longrightarrow> of_nat ch \<in> set s"
  by (induction s rule: codePoints.induct) (auto split: if_splits)

lemma toInput_mem: "ch < 0x10000 \<Longrightarrow> ch \<in> set (toInput u s) \<Longrightarrow> of_nat ch \<in> set s"
  by (cases u) (auto simp: toInput_def dest: codePoints_mem)

fun needs :: "nat \<Rightarrow> regex \<Rightarrow> bool" where
  "needs ch (Chr x) = (x = ch)"
| "needs ch (Seq a b) = (needs ch a \<or> needs ch b)"
| "needs ch (Alt a b) = (needs ch a \<and> needs ch b)"
| "needs ch (Rep mn mx g r) = (0 < mn \<and> mx \<noteq> Some 0 \<and> needs ch r)"
| "needs ch (Group k r) = needs ch r"
| "needs ch _ = False"

lemma charEq_plain: "ic \<longrightarrow> ch < 0x41 \<Longrightarrow> charEq ic x ch \<Longrightarrow> x = ch"
  by (auto simp: charEq_def canonicalize_def split: if_splits)

lemma step_absent: "\<forall>x \<in> set s. \<not> P x \<Longrightarrow> step fw P s i c = []"
  by (auto simp: step_def)

lemma ms_needs:
  "needs ch r \<Longrightarrow> ic \<longrightarrow> ch < 0x41 \<Longrightarrow> ch \<notin> set s \<Longrightarrow> ms L ic fw r s i c = []"
proof (induction r arbitrary: fw i c)
  case (Chr x)
  then have "\<forall>y \<in> set s. \<not> charEq ic y x"
    using charEq_plain [where ic = ic and ch = ch] by auto
  then show ?case by (simp add: step_absent)
next
  case (Seq a b)
  then show ?case by (cases fw) auto
next
  case (Rep mn mx g r)
  then have "ms L ic fw r s i (clearCaps r c) = []" by simp
  with Rep.prems show ?case by (simp add: repResult_def)
qed auto

lemma search_none:
  "(\<And>p. ms L ic True r s p (\<lambda>k. None) = []) \<Longrightarrow> search L ic r s p = None"
proof (induction L ic r s p rule: search.induct)
  case (1 L ic r s p)
  show ?case
  proof (cases "length s < p")
    case True
    then show ?thesis by (simp add: search.simps [of L ic r s p])
  next
    case False
    have "search L ic r s (Suc p) = None"
      using "1.IH" [OF False "1.prems" "1.prems"] .
    with False "1.prems" show ?thesis by (simp add: search.simps [of L ic r s p])
  qed
qed

lemma replace_no_match:
  assumes "\<And>p. ms (isLetter H) (ignoreCase re) True (source re) (toInput (unicode re) v) p (\<lambda>k. None) = []"
  shows "replace H v re rep = Inr v"
proof -
  have "search (isLetter H) (ignoreCase re) (source re) (toInput (unicode re) v) 0 = None"
    using assms by (rule search_none)
  then have "allMatches (isLetter H) (ignoreCase re) (source re) (toInput (unicode re) v) 0 = []"
    by (simp add: allMatches.simps [of _ _ _ _ 0])
  then show ?thesis by (simp add: replace_def fromInput_toInput)
qed

lemma replace_needs:
  assumes "needs ch (source re)" "ignoreCase re \<longrightarrow> ch < 0x41" "ch < 0x10000" "of_nat ch \<notin> set v"
  shows "replace H v re rep = Inr v"
proof (rule replace_no_match)
  fix p
  from assms(3,4) have "ch \<notin> set (toInput (unicode re) v)"
    using toInput_mem [of ch "unicode re" v] by auto
  with assms(1,2) show "ms (isLetter H) (ignoreCase re) True (source re) (toInput (unicode re) v) p (\<lambda>k. None) = []"
    by (rule ms_needs)
qed

lemma transform_append:
  "transform H v (xs @ ys) = (case transform H v xs of Inl e \<Rightarrow> Inl e | Inr w \<Rightarrow> transform H w ys)"
proof (induction xs arbitrary: v)
  case Nil
  show ?case by simp
next
  case (Cons r xs)
  show ?case by (cases r) (simp add: Cons.IH split: sum.splits)
qed

section \<open>Evaluation of concrete inputs\<close>

subsection \<open>The date 1987-07-30 and the range 1989-90, rule by rule\<close>

lemma date_0:
  "replace H (js ''1987-07-30'') doubleQuotedText (Template (0x201C # js ''$1'' @ [0x201D])) = Inr (js ''1987-07-30'')"
  by (simp add: rx_defs eval_defs)

lemma date_1:
  "replace H (js ''1987-07-30'') specialCaseN (Template (0x2019 # js ''$1'' @ [0x2019])) = Inr (js ''1987-07-30'')"
  by (simp add: rx_defs eval_defs)

lemma date_2:
  "replace H (js ''1987-07-30'') singleQuotedText (Template (0x2018 # js ''$1'' @ [0x2019])) = Inr (js ''1987-07-30'')"
  by (simp add: rx_defs eval_defs)

lemma date_3:
  "replace H (js ''1987-07-30'') doublePrimes (Template (js ''$1'' @ [0x2033])) = Inr (js ''1987-07-30'')"
  by (simp add: rx_defs eval_defs)

lemma date_4:
  "replace H (js ''1987-07-30'') singlePrimes (Template (js ''$1'' @ [0x2032] @ js ''$2'')) = Inr (js ''1987-07-30'')"
  by (simp add: rx_defs eval_defs)

lemma date_5:
  "replace H (js ''1987-07-30'') apostrophes (Template [0x2019]) = Inr (js ''1987-07-30'')"
  by (simp add: rx_defs eval_defs)

lemma date_6:
  "replace H (js ''1987-07-30'') ellipses (Template [0x2026]) = Inr (js ''1987-07-30'')"
  by (simp add: rx_defs eval_defs)

lemma date_7:
  "replace H (js ''1987-07-30'') dashSeparator (Template [0x20, 0x2013, 0x20]) = Inr (js ''1987-07-30'')"
  by (simp add: rx_defs eval_defs)

lemma date_8:
  "replace H (js ''1987-07-30'') isoDates (Function DateHyphens) = Inr (js ''1987'' @ [0x2010] @ js ''07'' @ [0x2010] @ js ''30'')"
  by (simp add: rx_defs eval_defs)

lemma date_9:
  "replace H (js ''1987'' @ [0x2010] @ js ''07'' @ [0x2010] @ js ''30'') groupedDigits (Function FigureDashes) = Inr (js ''1987'' @ [0x2010] @ js ''07'' @ [0x2010] @ js ''30'')"
  by (simp add: rx_defs eval_defs)

lemma date_10:
  "replace H (js ''1987'' @ [0x2010] @ js ''07'' @ [0x2010] @ js ''30'') ranges (Template (js ''$1'' @ [0x2013] @ js ''$2'')) = Inr (js ''1987'' @ [0x2010] @ js ''07'' @ [0x2010] @ js ''30'')"
  by (simp add: rx_defs eval_defs)

lemma date_11:
  "replace H (js ''1987'' @ [0x2010] @ js ''07'' @ [0x2010] @ js ''30'') hyphens (Template [0x2010]) = Inr (js ''1987'' @ [0x2010] @ js ''07'' @ [0x2010] @ js ''30'')"
  by (simp add: rx_defs eval_defs)

lemma range_0:
  "replace H (js ''1989-90'') doubleQuotedText (Template (0x201C # js ''$1'' @ [0x201D])) = Inr (js ''1989-90'')"
  by (simp add: rx_defs eval_defs)

lemma range_1:
  "replace H (js ''1989-90'') specialCaseN (Template (0x2019 # js ''$1'' @ [0x2019])) = Inr (js ''1989-90'')"
  by (simp add: rx_defs eval_defs)

lemma range_2:
  "replace H (js ''1989-90'') singleQuotedText (Template (0x2018 # js ''$1'' @ [0x2019])) = Inr (js ''1989-90'')"
  by (simp add: rx_defs eval_defs)

lemma range_3:
  "replace H (js ''1989-90'') doublePrimes (Template (js ''$1'' @ [0x2033])) = Inr (js ''1989-90'')"
  by (simp add: rx_defs eval_defs)

lemma range_4:
  "replace H (js ''1989-90'') singlePrimes (Template (js ''$1'' @ [0x2032] @ js ''$2'')) = Inr (js ''1989-90'')"
  by (simp add: rx_defs eval_defs)

lemma range_5:
  "replace H (js ''1989-90'') apostrophes (Template [0x2019]) = Inr (js ''1989-90'')"
  by (simp add: rx_defs eval_defs)

lemma range_6:
  "replace H (js ''1989-90'') ellipses (Template [0x2026]) = Inr (js ''1989-90'')"
  by (simp add: rx_defs eval_defs)

lemma range_7:
  "replace H (js ''1989-90'') dashSeparator (Template [0x20, 0x2013, 0x20]) = Inr (js ''1989-90'')"
  by (simp add: rx_defs eval_defs)

lemma range_8:
  "replace H (js ''1989-90'') isoDates (Function DateHyphens) = Inr (js ''1989-90'')"
  by (simp add: rx_defs eval_defs)

lemma range_9:
  "replace H (js ''1989-90'') groupedDigits (Function FigureDashes) = Inr (js ''1989-90'')"
  by (simp add: rx_defs eval_defs)

lemma range_10:
  "replace H (js ''1989-90'') ranges (Template (js ''$1'' @ [0x2013] @ js ''$2'')) = Inr (js ''1989'' @ [0x2013] @ js ''90'')"
  by (simp add: rx_defs eval_defs)

lemma range_11:
  "replace H (js ''1989'' @ [0x2013] @ js ''90'') hyphens (Template [0x2010]) = Inr (js ''1989'' @ [0x2013] @ js ''90'')"
  by (simp add: rx_defs eval_defs)


text \<open>
  Claim C6. Under the default rules, \<open>1987-07-30\<close> is matched by the date rule, parses as a
  date on every host and has each hyphen replaced by U+2010; \<open>1989-90\<close> is returned unchanged
  by the date rule (month 90 does not parse), is then turned into \<open>1989\<close> U+2013 \<open>90\<close> by
  the range rule, and that is what the whole rule sequence returns.
\<close>

theorem date_versus_range:
  "transform H (js ''1987-07-30'') defaultRules
     = Inr (js ''1987'' @ [0x2010] @ js ''07'' @ [0x2010] @ js ''30'')
   \<and> replace H (js ''1989-90'') isoDates (Function DateHyphens) = Inr (js ''1989-90'')
   \<and> replace H (js ''1989-90'') ranges (Template (js ''$1'' @ [0x2013] @ js ''$2''))
     = Inr (js ''1989'' @ [0x2013] @ js ''90'')
   \<and> transform H (js ''1989-90'') defaultRules = Inr (js ''1989'' @ [0x2013] @ js ''90'')"
proof -
  have a: "transform H (js ''1987-07-30'') defaultRules
      = Inr (js ''1987'' @ [0x2010] @ js ''07'' @ [0x2010] @ js ''30'')"
    by (simp only: defaultRules_def transform.simps sum.case date_0 date_1 date_2 date_3 date_4 date_5 date_6 date_7 date_8 date_9 date_10 date_11)
  have b: "transform H (js ''1989-90'') defaultRules = Inr (js ''1989'' @ [0x2013] @ js ''90'')"
    by (simp only: defaultRules_def transform.simps sum.case range_0 range_1 range_2 range_3 range_4 range_5 range_6 range_7 range_8 range_9 range_10 range_11)
  from a b range_8 range_10 show ?thesis by (simp only: simp_thms)
qed

theorem date_versus_range_witness:
  "transform \<lparr>isLetter = (\<lambda>c. False), lenientDays = False, legacyDates = False\<rparr> (js ''1987-07-30'') defaultRules
     = Inr (js ''1987'' @ [0x2010] @ js ''07'' @ [0x2010] @ js ''30'')
   \<and> replace \<lparr>isLetter = (\<lambda>c. False), lenientDays = False, legacyDates = False\<rparr> (js ''1989-90'') isoDates (Function DateHyphens)
     = Inr (js ''1989-90'')
   \<and> replace \<lparr>isLetter = (\<lambda>c. False), lenientDays = False, legacyDates = False\<rparr> (js ''1989-90'') ranges
       (Template (js ''$1'' @ [0x2013] @ js ''$2'')) = Inr (js ''1989'' @ [0x2013] @ js ''90'')
   \<and> transform \<lparr>isLetter = (\<lambda>c. False), lenientDays = False, legacyDates = False\<rparr> (js ''1989-90'') defaultRules
     = Inr (js ''1989'' @ [0x2013] @ js ''90'')"
  by (rule date_versus_range)

text \<open>
  The hosts differ on strings that are no ISO date: a host with the legacy parser reads
  \<open>0001-13\<close> and \<open>0001-01-00\<close> as dates, a strict host does not; neither reads \<open>1989-90\<close>
  as one.
\<close>

lemma legacy_dates:
  "dateParses \<lparr>isLetter = f, lenientDays = True, legacyDates = True\<rparr> (js ''0001-13'')"
  "dateParses \<lparr>isLetter = f, lenientDays = True, legacyDates = True\<rparr> (js ''0001-01-00'')"
  "\<not> dateParses \<lparr>isLetter = f, lenientDays = l, legacyDates = False\<rparr> (js ''0001-13'')"
  "\<not> dateParses \<lparr>isLetter = f, lenientDays = l, legacyDates = False\<rparr> (js ''0001-01-00'')"
  "\<not> dateParses H (js ''1989-90'')"
  by (simp_all add: eval_defs)

section \<open>Text that is already typographic\<close>

fun hasEllipsis :: "jsstring \<Rightarrow> bool" where
  "hasEllipsis (a # b # c # t) = ((a = 0x2E \<and> b = 0x2E \<and> c = 0x2E) \<or> hasEllipsis (b # c # t))"
| "hasEllipsis _ = False"

lemma hasEllipsis_nth:
  "p + 2 < length s \<Longrightarrow> s ! p = 0x2E \<Longrightarrow> s ! (p + 1) = 0x2E \<Longrightarrow> s ! (p + 2) = 0x2E \<Longrightarrow> hasEllipsis s"
proof (induction s arbitrary: p rule: hasEllipsis.induct)
  case (1 a b c t)
  show ?case
  proof (cases p)
    case 0
    with "1.prems" show ?thesis by simp
  next
    case (Suc q)
    with "1.prems" have "hasEllipsis (b # c # t)"
      by (intro "1.IH" [of q]) auto
    then show ?thesis by simp
  qed
qed auto

lemma unat_eq_dot: "unat (u :: 16 word) = 46 \<longleftrightarrow> u = 0x2E"
proof
  assume "unat u = 46"
  then have "(of_nat (unat u) :: 16 word) = of_nat 46" by (simp only:)
  then show "u = 0x2E" by simp
qed simp

lemma ellipses_match:
  assumes "ms L False True (source ellipses) (map unat (s :: jsstring)) p c \<noteq> []"
  shows "p + 2 < length s \<and> s ! p = 0x2E \<and> s ! (p + 1) = 0x2E \<and> s ! (p + 2) = 0x2E"
  using assms
  by (simp add: rx_defs step_def look_def repResult_def charEq_def unat_eq_dot split: if_splits)


lemma ellipses_absent:
  assumes "\<not> hasEllipsis s"
  shows "replace H s ellipses rep = Inr s"
proof (rule replace_no_match)
  fix p
  have u: "unicode ellipses = False" "ignoreCase ellipses = False"
    by (simp_all add: ellipses_def rx_def)
  show "ms (isLetter H) (ignoreCase ellipses) True (source ellipses) (toInput (unicode ellipses) s) p (\<lambda>k. None) = []"
    unfolding u toInput_def if_False
    using assms ellipses_match [of "isLetter H" s p "\<lambda>k. None"] hasEllipsis_nth [of p s] by blast
qed

lemma doubleQuotedText_absent:
  "0x22 \<notin> set (s :: jsstring) \<Longrightarrow> replace H s doubleQuotedText rep = Inr s"
  by (rule replace_needs [where ch = "0x22"]) (simp_all add: rx_defs)

lemma specialCaseN_absent:
  "0x27 \<notin> set (s :: jsstring) \<Longrightarrow> replace H s specialCaseN rep = Inr s"
  by (rule replace_needs [where ch = "0x27"]) (simp_all add: rx_defs)

lemma singleQuotedText_absent:
  "0x27 \<notin> set (s :: jsstring) \<Longrightarrow> replace H s singleQuotedText rep = Inr s"
  by (rule replace_needs [where ch = "0x27"]) (simp_all add: rx_defs)

lemma doublePrimes_absent:
  "0x22 \<notin> set (s :: jsstring) \<Longrightarrow> replace H s doublePrimes rep = Inr s"
  by (rule replace_needs [where ch = "0x22"]) (simp_all add: rx_defs)

lemma singlePrimes_absent:
  "0x27 \<notin> set (s :: jsstring) \<Longrightarrow> replace H s singlePrimes rep = Inr s"
  by (rule replace_needs [where ch = "0x27"]) (simp_all add: rx_defs)

lemma apostrophes_absent:
  "0x27 \<notin> set (s :: jsstring) \<Longrightarrow> replace H s apostrophes rep = Inr s"
  by (rule replace_needs [where ch = "0x27"]) (simp_all add: rx_defs)

lemma dashSeparator_absent:
  "0x2D \<notin> set (s :: jsstring) \<Longrightarrow> replace H s dashSeparator rep = Inr s"
  by (rule replace_needs [where ch = "0x2D"]) (simp_all add: rx_defs)

lemma isoDates_absent:
  "0x2D \<notin> set (s :: jsstring) \<Longrightarrow> replace H s isoDates rep = Inr s"
  by (rule replace_needs [where ch = "0x2D"]) (simp_all add: rx_defs)

lemma groupedDigits_absent:
  "0x2D \<notin> set (s :: jsstring) \<Longrightarrow> replace H s groupedDigits rep = Inr s"
  by (rule replace_needs [where ch = "0x2D"]) (simp_all add: rx_defs)

lemma ranges_absent:
  "0x2D \<notin> set (s :: jsstring) \<Longrightarrow> replace H s ranges rep = Inr s"
  by (rule replace_needs [where ch = "0x2D"]) (simp_all add: rx_defs)

lemma hyphens_absent:
  "0x2D \<notin> set (s :: jsstring) \<Longrightarrow> replace H s hyphens rep = Inr s"
  by (rule replace_needs [where ch = "0x2D"]) (simp_all add: rx_defs)

lemma dashSeparator_absent_space:
  "0x20 \<notin> set (s :: jsstring) \<Longrightarrow> replace H s dashSeparator rep = Inr s"
  by (rule replace_needs [where ch = "0x20"]) (simp_all add: rx_defs)

lemma defaultRules_unchanged:
  assumes "0x22 \<notin> set (s :: jsstring)" and "0x27 \<notin> set s" and "0x2D \<notin> set s" and "\<not> hasEllipsis s"
  shows "transform H s defaultRules = Inr s"
proof -
  note unchanged = doubleQuotedText_absent [OF assms(1)] specialCaseN_absent [OF assms(2)]
    singleQuotedText_absent [OF assms(2)] doublePrimes_absent [OF assms(1)]
    singlePrimes_absent [OF assms(2)] apostrophes_absent [OF assms(2)] ellipses_absent [OF assms(4)]
    dashSeparator_absent [OF assms(3)] isoDates_absent [OF assms(3)] groupedDigits_absent [OF assms(3)]
    ranges_absent [OF assms(3)] hyphens_absent [OF assms(3)]
  show ?thesis
    by (simp only: defaultRules_def transform.simps sum.case unchanged)
qed

text \<open>
  Claim C9. A string with no ASCII double quote, no apostrophe, no hyphen-minus and no three
  consecutive full stops is returned unchanged by the default rules: no rule matches.
\<close>

theorem typographic_text_unchanged:
  assumes "0x22 \<notin> set (s :: jsstring)" and "0x27 \<notin> set s" and "0x2D \<notin> set s" and "\<not> hasEllipsis s"
  shows "transform H s defaultRules = Inr s"
  using assms by (rule defaultRules_unchanged)

theorem typographic_text_unchanged_witness:
  "0x22 \<notin> set ([0x201C] @ js ''1989'' @ [0x2013] @ js ''90'' @ [0x2026, 0x201D])
   \<and> 0x27 \<notin> set ([0x201C] @ js ''1989'' @ [0x2013] @ js ''90'' @ [0x2026, 0x201D])
   \<and> 0x2D \<notin> set ([0x201C] @ js ''1989'' @ [0x2013] @ js ''90'' @ [0x2026, 0x201D])
   \<and> \<not> hasEllipsis ([0x201C] @ js ''1989'' @ [0x2013] @ js ''90'' @ [0x2026, 0x201D])
   \<and> transform \<lparr>isLetter = (\<lambda>c. False), lenientDays = False, legacyDates = False\<rparr>
        ([0x201C] @ js ''1989'' @ [0x2013] @ js ''90'' @ [0x2026, 0x201D]) defaultRules
      = Inr ([0x201C] @ js ''1989'' @ [0x2013] @ js ''90'' @ [0x2026, 0x201D])"
proof -
  have 1: "0x22 \<notin> set ([0x201C] @ js ''1989'' @ [0x2013] @ js ''90'' @ [0x2026, 0x201D])"
    and 2: "0x27 \<notin> set ([0x201C] @ js ''1989'' @ [0x2013] @ js ''90'' @ [0x2026, 0x201D])"
    and 3: "0x2D \<notin> set ([0x201C] @ js ''1989'' @ [0x2013] @ js ''90'' @ [0x2026, 0x201D])"
    and 4: "\<not> hasEllipsis ([0x201C] @ js ''1989'' @ [0x2013] @ js ''90'' @ [0x2026, 0x201D])"
    by (simp_all add: js_def)
  from 1 2 3 4 typographic_text_unchanged [OF 1 2 3 4] show ?thesis by (simp only: simp_thms)
qed

section \<open>Preserving markup\<close>

lemma preserveMarkup_rules:
  "rulesAt moduleHeap transformationRulesToPreserveMarkup = Some (protectRules @ defaultRules @ restoreRules)"
  by (simp add: rulesAt_def ruleAt_def lookup_def moduleHeap_def transformationRulesToPreserveMarkup_def
      defaultRules_def protectRules_def restoreRules_def germanRules_def japaneseRules_def hebrewRules_def
      upt_rec nth_append)

subsection \<open>The labeled link, rule by rule\<close>

lemma link_protect_0:
  "replace H (js ''[http://example.com/a-b|label]'') labeledLink (Function EncodeLink)
     = Inr (js ''[aHR0cDovL2V4YW1wbGUuY29tL2EtYg==|label]'')"
  by (simp add: rx_defs markup_defs eval_defs fn_defs)

lemma link_protect_1:
  "replace H (js ''[aHR0cDovL2V4YW1wbGUuY29tL2EtYg==|label]'') plainTextURL (Function EncodePath)
     = Inr (js ''[aHR0cDovL2V4YW1wbGUuY29tL2EtYg==|label]'')"
  by (simp add: rx_defs markup_defs eval_defs fn_defs)

lemma link_protect_2:
  "replace H (js ''[aHR0cDovL2V4YW1wbGUuY29tL2EtYg==|label]'') (literal [CHR 0x27, CHR 0x27, CHR 0x27]) rep
     = Inr (js ''[aHR0cDovL2V4YW1wbGUuY29tL2EtYg==|label]'')"
  by (rule replace_needs [where ch = "0x27"]) (simp_all add: rx_defs markup_defs js_def)

lemma link_protect_3:
  "replace H (js ''[aHR0cDovL2V4YW1wbGUuY29tL2EtYg==|label]'') (literal [CHR 0x27, CHR 0x27]) rep
     = Inr (js ''[aHR0cDovL2V4YW1wbGUuY29tL2EtYg==|label]'')"
  by (rule replace_needs [where ch = "0x27"]) (simp_all add: rx_defs markup_defs js_def)

lemma link_restore_0:
  "replace H (js ''[aHR0cDovL2V4YW1wbGUuY29tL2EtYg==|label]'') (literal ''<b>'') rep
     = Inr (js ''[aHR0cDovL2V4YW1wbGUuY29tL2EtYg==|label]'')"
  by (rule replace_needs [where ch = "0x3C"]) (simp_all add: rx_defs markup_defs js_def)

lemma link_restore_1:
  "replace H (js ''[aHR0cDovL2V4YW1wbGUuY29tL2EtYg==|label]'') (literal ''<i>'') rep
     = Inr (js ''[aHR0cDovL2V4YW1wbGUuY29tL2EtYg==|label]'')"
  by (rule replace_needs [where ch = "0x3C"]) (simp_all add: rx_defs markup_defs js_def)

lemma link_restore_2:
  "replace H (js ''[aHR0cDovL2V4YW1wbGUuY29tL2EtYg==|label]'') encodedPlainTextURL (Function DecodePath)
     = Inr (js ''[aHR0cDovL2V4YW1wbGUuY29tL2EtYg==|label]'')"
  by (simp add: rx_defs markup_defs eval_defs fn_defs)

lemma link_restore_3:
  "replace H (js ''[aHR0cDovL2V4YW1wbGUuY29tL2EtYg==|label]'') encodedLabeledLink (Function DecodeLink)
     = Inr (js ''[http://example.com/a-b|label]'')"
  by (simp add: rx_defs markup_defs eval_defs fn_defs)

lemma link_encoded_default:
  "transform H (js ''[aHR0cDovL2V4YW1wbGUuY29tL2EtYg==|label]'') defaultRules
     = Inr (js ''[aHR0cDovL2V4YW1wbGUuY29tL2EtYg==|label]'')"
  by (rule defaultRules_unchanged) (simp_all add: js_def)

lemma label_protect_0:
  "replace H (js ''[http://example.com/a-b|a-b]'') labeledLink (Function EncodeLink) = Inr (js ''[aHR0cDovL2V4YW1wbGUuY29tL2EtYg==|a-b]'')"
  by (simp add: rx_defs markup_defs eval_defs fn_defs)

lemma label_protect_1:
  "replace H (js ''[aHR0cDovL2V4YW1wbGUuY29tL2EtYg==|a-b]'') plainTextURL (Function EncodePath) = Inr (js ''[aHR0cDovL2V4YW1wbGUuY29tL2EtYg==|a-b]'')"
  by (simp add: rx_defs markup_defs eval_defs fn_defs)

lemma label_protect_2:
  "replace H (js ''[aHR0cDovL2V4YW1wbGUuY29tL2EtYg==|a-b]'') (literal [CHR 0x27, CHR 0x27, CHR 0x27]) rep = Inr (js ''[aHR0cDovL2V4YW1wbGUuY29tL2EtYg==|a-b]'')"
  by (rule replace_needs [where ch = "0x27"]) (simp_all add: rx_defs markup_defs js_def)

lemma label_protect_3:
  "replace H (js ''[aHR0cDovL2V4YW1wbGUuY29tL2EtYg==|a-b]'') (literal [CHR 0x27, CHR 0x27]) rep = Inr (js ''[aHR0cDovL2V4YW1wbGUuY29tL2EtYg==|a-b]'')"
  by (rule replace_needs [where ch = "0x27"]) (simp_all add: rx_defs markup_defs js_def)

lemma label_default_0:
  "replace H (js ''[aHR0cDovL2V4YW1wbGUuY29tL2EtYg==|a-b]'') doubleQuotedText (Template (0x201C # js ''$1'' @ [0x201D])) = Inr (js ''[aHR0cDovL2V4YW1wbGUuY29tL2EtYg==|a-b]'')"
  by (rule doubleQuotedText_absent) (simp add: js_def)

lemma label_default_1:
  "replace H (js ''[aHR0cDovL2V4YW1wbGUuY29tL2EtYg==|a-b]'') specialCaseN (Template (0x2019 # js ''$1'' @ [0x2019])) = Inr (js ''[aHR0cDovL2V4YW1wbGUuY29tL2EtYg==|a-b]'')"
  by (rule specialCaseN_absent) (simp add: js_def)

lemma label_default_2:
  "replace H (js ''[aHR0cDovL2V4YW1wbGUuY29tL2EtYg==|a-b]'') singleQuotedText (Template (0x2018 # js ''$1'' @ [0x2019])) = Inr (js ''[aHR0cDovL2V4YW1wbGUuY29tL2EtYg==|a-b]'')"
  by (rule singleQuotedText_absent) (simp add: js_def)

lemma label_default_3:
  "replace H (js ''[aHR0cDovL2V4YW1wbGUuY29tL2EtYg==|a-b]'') doublePrimes (Template (js ''$1'' @ [0x2033])) = Inr (js ''[aHR0cDovL2V4YW1wbGUuY29tL2EtYg==|a-b]'')"
  by (rule doublePrimes_absent) (simp add: js_def)

lemma label_default_4:
  "replace H (js ''[aHR0cDovL2V4YW1wbGUuY29tL2EtYg==|a-b]'') singlePrimes (Template (js ''$1'' @ [0x2032] @ js ''$2'')) = Inr (js ''[aHR0cDovL2V4YW1wbGUuY29tL2EtYg==|a-b]'')"
  by (rule singlePrimes_absent) (simp add: js_def)

lemma label_default_5:
  "replace H (js ''[aHR0cDovL2V4YW1wbGUuY29tL2EtYg==|a-b]'') apostrophes (Template [0x2019]) = Inr (js ''[aHR0cDovL2V4YW1wbGUuY29tL2EtYg==|a-b]'')"
  by (rule apostrophes_absent) (simp add: js_def)

lemma label_default_6:
  "replace H (js ''[aHR0cDovL2V4YW1wbGUuY29tL2EtYg==|a-b]'') ellipses (Template [0x2026]) = Inr (js ''[aHR0cDovL2V4YW1wbGUuY29tL2EtYg==|a-b]'')"
  by (rule ellipses_absent) (simp add: js_def)

lemma label_default_7:
  "replace H (js ''[aHR0cDovL2V4YW1wbGUuY29tL2EtYg==|a-b]'') dashSeparator (Template [0x20, 0x2013, 0x20]) = Inr (js ''[aHR0cDovL2V4YW1wbGUuY29tL2EtYg==|a-b]'')"
  by (rule dashSeparator_absent_space) (simp add: js_def)

lemma label_default_8:
  "replace H (js ''[aHR0cDovL2V4YW1wbGUuY29tL2EtYg==|a-b]'') isoDates (Function DateHyphens) = Inr (js ''[aHR0cDovL2V4YW1wbGUuY29tL2EtYg==|a-b]'')"
  by (simp add: rx_defs markup_defs eval_defs fn_defs)

lemma label_default_9:
  "replace H (js ''[aHR0cDovL2V4YW1wbGUuY29tL2EtYg==|a-b]'') groupedDigits (Function FigureDashes) = Inr (js ''[aHR0cDovL2V4YW1wbGUuY29tL2EtYg==|a-b]'')"
  by (simp add: rx_defs markup_defs eval_defs fn_defs)

lemma label_default_10:
  "replace H (js ''[aHR0cDovL2V4YW1wbGUuY29tL2EtYg==|a-b]'') ranges (Template (js ''$1'' @ [0x2013] @ js ''$2'')) = Inr (js ''[aHR0cDovL2V4YW1wbGUuY29tL2EtYg==|a-b]'')"
  by (simp add: rx_defs markup_defs eval_defs fn_defs)

lemma label_default_11:
  "replace H (js ''[aHR0cDovL2V4YW1wbGUuY29tL2EtYg==|a-b]'') hyphens (Template [0x2010]) = Inr (js ''[aHR0cDovL2V4YW1wbGUuY29tL2EtYg==|a'' @ [0x2010] @ js ''b]'')"
  by (simp add: rx_defs markup_defs eval_defs fn_defs)

lemma label_restore_0:
  "replace H (js ''[aHR0cDovL2V4YW1wbGUuY29tL2EtYg==|a'' @ [0x2010] @ js ''b]'') (literal ''<b>'') rep = Inr (js ''[aHR0cDovL2V4YW1wbGUuY29tL2EtYg==|a'' @ [0x2010] @ js ''b]'')"
  by (rule replace_needs [where ch = "0x3C"]) (simp_all add: rx_defs markup_defs js_def)

lemma label_restore_1:
  "replace H (js ''[aHR0cDovL2V4YW1wbGUuY29tL2EtYg==|a'' @ [0x2010] @ js ''b]'') (literal ''<i>'') rep = Inr (js ''[aHR0cDovL2V4YW1wbGUuY29tL2EtYg==|a'' @ [0x2010] @ js ''b]'')"
  by (rule replace_needs [where ch = "0x3C"]) (simp_all add: rx_defs markup_defs js_def)

lemma label_restore_2:
  "replace H (js ''[aHR0cDovL2V4YW1wbGUuY29tL2EtYg==|a'' @ [0x2010] @ js ''b]'') encodedPlainTextURL (Function DecodePath) = Inr (js ''[aHR0cDovL2V4YW1wbGUuY29tL2EtYg==|a'' @ [0x2010] @ js ''b]'')"
  by (simp add: rx_defs markup_defs eval_defs fn_defs)

lemma label_restore_3:
  "replace H (js ''[aHR0cDovL2V4YW1wbGUuY29tL2EtYg==|a'' @ [0x2010] @ js ''b]'') encodedLabeledLink (Function DecodeLink) = Inr (js ''[http://example.com/a-b|a'' @ [0x2010] @ js ''b]'')"
  by (simp add: rx_defs markup_defs eval_defs fn_defs)

lemma link_protect:
  "transform H (js ''[http://example.com/a-b|label]'') protectRules = Inr (js ''[aHR0cDovL2V4YW1wbGUuY29tL2EtYg==|label]'')"
  by (simp only: protectRules_def transform.simps sum.case link_protect_0 link_protect_1 link_protect_2 link_protect_3)

lemma link_restore:
  "transform H (js ''[aHR0cDovL2V4YW1wbGUuY29tL2EtYg==|label]'') restoreRules = Inr (js ''[http://example.com/a-b|label]'')"
  by (simp only: restoreRules_def transform.simps sum.case link_restore_0 link_restore_1 link_restore_2 link_restore_3)

lemma label_protect:
  "transform H (js ''[http://example.com/a-b|a-b]'') protectRules = Inr (js ''[aHR0cDovL2V4YW1wbGUuY29tL2EtYg==|a-b]'')"
  by (simp only: protectRules_def transform.simps sum.case label_protect_0 label_protect_1 label_protect_2 label_protect_3)

lemma label_default:
  "transform H (js ''[aHR0cDovL2V4YW1wbGUuY29tL2EtYg==|a-b]'') defaultRules = Inr (js ''[aHR0cDovL2V4YW1wbGUuY29tL2EtYg==|a'' @ [0x2010] @ js ''b]'')"
  by (simp only: defaultRules_def transform.simps sum.case label_default_0 label_default_1 label_default_2 label_default_3 label_default_4 label_default_5 label_default_6 label_default_7 label_default_8 label_default_9 label_default_10 label_default_11)

lemma label_restore:
  "transform H (js ''[aHR0cDovL2V4YW1wbGUuY29tL2EtYg==|a'' @ [0x2010] @ js ''b]'') restoreRules = Inr (js ''[http://example.com/a-b|a'' @ [0x2010] @ js ''b]'')"
  by (simp only: restoreRules_def transform.simps sum.case label_restore_0 label_restore_1 label_restore_2 label_restore_3)

text \<open>
  Claim C5. For the text \<open>[http://example.com/a-b|label]\<close> the protect rules replace the link
  target by its Base64 encoding and leave the label, and the restore rules applied to that give
  the original text back; the whole sequence \<open>transformationRulesToPreserveMarkup\<close> returns the
  text unchanged, hyphen of the target included. The label is still guessed: with the label
  \<open>a-b\<close> the hyphen of the label becomes U+2010 and the one of the target stays.
\<close>

theorem labeled_link_roundtrip:
  "rulesAt moduleHeap transformationRulesToPreserveMarkup
      = Some (protectRules @ defaultRules @ restoreRules)
   \<and> transform H (js ''[http://example.com/a-b|label]'') protectRules
      = Inr (js ''[aHR0cDovL2V4YW1wbGUuY29tL2EtYg==|label]'')
   \<and> transform H (js ''[aHR0cDovL2V4YW1wbGUuY29tL2EtYg==|label]'') restoreRules
      = Inr (js ''[http://example.com/a-b|label]'')
   \<and> transform H (js ''[http://example.com/a-b|label]'') (protectRules @ defaultRules @ restoreRules)
      = Inr (js ''[http://example.com/a-b|label]'')
   \<and> transform H (js ''[http://example.com/a-b|a-b]'') (protectRules @ defaultRules @ restoreRules)
      = Inr (js ''[http://example.com/a-b|a'' @ [0x2010] @ js ''b]'')"
  by (simp only: preserveMarkup_rules transform_append link_protect link_restore link_encoded_default
      label_protect label_default label_restore sum.case simp_thms)

theorem labeled_link_roundtrip_witness:
  "rulesAt moduleHeap transformationRulesToPreserveMarkup
      = Some (protectRules @ defaultRules @ restoreRules)
   \<and> transform \<lparr>isLetter = (\<lambda>c. False), lenientDays = False, legacyDates = False\<rparr> (js ''[http://example.com/a-b|label]'') protectRules
      = Inr (js ''[aHR0cDovL2V4YW1wbGUuY29tL2EtYg==|label]'')
   \<and> transform \<lparr>isLetter = (\<lambda>c. False), lenientDays = False, legacyDates = False\<rparr> (js ''[aHR0cDovL2V4YW1wbGUuY29tL2EtYg==|label]'') restoreRules
      = Inr (js ''[http://example.com/a-b|label]'')
   \<and> transform \<lparr>isLetter = (\<lambda>c. False), lenientDays = False, legacyDates = False\<rparr> (js ''[http://example.com/a-b|label]'') (protectRules @ defaultRules @ restoreRules)
      = Inr (js ''[http://example.com/a-b|label]'')
   \<and> transform \<lparr>isLetter = (\<lambda>c. False), lenientDays = False, legacyDates = False\<rparr> (js ''[http://example.com/a-b|a-b]'') (protectRules @ defaultRules @ restoreRules)
      = Inr (js ''[http://example.com/a-b|a'' @ [0x2010] @ js ''b]'')"
  by (rule labeled_link_roundtrip)

subsection \<open>Text the markup rules do not preserve\<close>

lemma cjk_link_0:
  "replace H ([0x5B, 0x65E5, 0x672C, 0x5D]) labeledLink (Function EncodeLink) = Inl InvalidCharacterError"
  by (simp add: rx_defs markup_defs eval_defs fn_defs)

lemma bold_protect_0:
  "replace H (js ''<b>'') labeledLink rep = Inr (js ''<b>'')"
  by (rule replace_needs [where ch = "0x5B"]) (simp_all add: rx_defs markup_defs js_def)

lemma bold_protect_1:
  "replace H (js ''<b>'') plainTextURL (Function EncodePath) = Inr (js ''<b>'')"
  by (simp add: rx_defs markup_defs eval_defs fn_defs)

lemma bold_protect_2:
  "replace H (js ''<b>'') (literal [CHR 0x27, CHR 0x27, CHR 0x27]) rep = Inr (js ''<b>'')"
  by (rule replace_needs [where ch = "0x27"]) (simp_all add: rx_defs markup_defs js_def)

lemma bold_protect_3:
  "replace H (js ''<b>'') (literal [CHR 0x27, CHR 0x27]) rep = Inr (js ''<b>'')"
  by (rule replace_needs [where ch = "0x27"]) (simp_all add: rx_defs markup_defs js_def)

lemma bold_default:
  "transform H (js ''<b>'') defaultRules = Inr (js ''<b>'')"
  by (rule defaultRules_unchanged) (simp_all add: js_def)

lemma bold_restore_0:
  "replace H (js ''<b>'') (literal ''<b>'') (Template (js [CHR 0x27, CHR 0x27, CHR 0x27])) = Inr (js [CHR 0x27, CHR 0x27, CHR 0x27])"
  by (simp add: rx_defs markup_defs eval_defs fn_defs)

lemma bold_restore_1:
  "replace H (js [CHR 0x27, CHR 0x27, CHR 0x27]) (literal ''<i>'') rep = Inr (js [CHR 0x27, CHR 0x27, CHR 0x27])"
  by (rule replace_needs [where ch = "0x3C"]) (simp_all add: rx_defs markup_defs js_def)

lemma bold_restore_2:
  "replace H (js [CHR 0x27, CHR 0x27, CHR 0x27]) encodedPlainTextURL (Function DecodePath) = Inr (js [CHR 0x27, CHR 0x27, CHR 0x27])"
  by (simp add: rx_defs markup_defs eval_defs fn_defs)

lemma bold_restore_3:
  "replace H (js [CHR 0x27, CHR 0x27, CHR 0x27]) encodedLabeledLink rep = Inr (js [CHR 0x27, CHR 0x27, CHR 0x27])"
  by (rule replace_needs [where ch = "0x5B"]) (simp_all add: rx_defs markup_defs js_def)

lemma bold_protect:
  "transform H (js ''<b>'') protectRules = Inr (js ''<b>'')"
  by (simp only: protectRules_def transform.simps sum.case bold_protect_0 bold_protect_1 bold_protect_2 bold_protect_3)

lemma bold_restore:
  "transform H (js ''<b>'') restoreRules = Inr (js [CHR 0x27, CHR 0x27, CHR 0x27])"
  by (simp only: restoreRules_def transform.simps sum.case bold_restore_0 bold_restore_1 bold_restore_2 bold_restore_3)

lemma cjk_link_protect:
  "transform H [0x5B, 0x65E5, 0x672C, 0x5D] protectRules = Inl InvalidCharacterError"
  by (simp only: protectRules_def transform.simps sum.case cjk_link_0)

text \<open>
  Claim C4 fails on the code. A bracketed text with a character above U+00FF, here
  U+65E5 U+672C in brackets, makes \<open>btoa\<close> raise \<open>InvalidCharacterError\<close> in the first protect
  rule, so the transformation does not return. And a text that holds the placeholder \<open><b>\<close>
  itself comes back as three apostrophes.
\<close>

theorem markup_guard_failures:
  "transform H [0x5B, 0x65E5, 0x672C, 0x5D] (protectRules @ defaultRules @ restoreRules)
      = Inl InvalidCharacterError
   \<and> transform H (js ''<b>'') (protectRules @ defaultRules @ restoreRules)
      = Inr (js [CHR 0x27, CHR 0x27, CHR 0x27])"
  by (simp only: cjk_link_protect transform_append bold_protect bold_default bold_restore sum.case simp_thms)

theorem markup_guard_failures_witness:
  "transform \<lparr>isLetter = (\<lambda>c. False), lenientDays = False, legacyDates = False\<rparr> [0x5B, 0x65E5, 0x672C, 0x5D] (protectRules @ defaultRules @ restoreRules)
      = Inl InvalidCharacterError
   \<and> transform \<lparr>isLetter = (\<lambda>c. False), lenientDays = False, legacyDates = False\<rparr> (js ''<b>'') (protectRules @ defaultRules @ restoreRules)
      = Inr (js [CHR 0x27, CHR 0x27, CHR 0x27])"
  by (rule markup_guard_failures)

section \<open>Resolving the rules of a language\<close>

lemma length_moduleHeap: "length moduleHeap = 28"
  by (simp add: moduleHeap_def defaultRules_def germanRules_def japaneseRules_def hebrewRules_def
      protectRules_def restoreRules_def)

lemma lookup_loaded: "a < 28 \<Longrightarrow> lookup (moduleHeap @ t) a = Some (moduleHeap ! a)"
  by (simp add: lookup_def length_moduleHeap nth_append)

lemma moduleHeap_nth:
  "moduleHeap ! 0 = RuleObj (defaultRules ! 0)"
  "moduleHeap ! 1 = RuleObj (defaultRules ! 1)"
  "moduleHeap ! 2 = RuleObj (defaultRules ! 2)"
  "moduleHeap ! 3 = RuleObj (defaultRules ! 3)"
  "moduleHeap ! 4 = RuleObj (defaultRules ! 4)"
  "moduleHeap ! 5 = RuleObj (defaultRules ! 5)"
  "moduleHeap ! 6 = RuleObj (defaultRules ! 6)"
  "moduleHeap ! 7 = RuleObj (defaultRules ! 7)"
  "moduleHeap ! 8 = RuleObj (defaultRules ! 8)"
  "moduleHeap ! 9 = RuleObj (defaultRules ! 9)"
  "moduleHeap ! 10 = RuleObj (defaultRules ! 10)"
  "moduleHeap ! 11 = RuleObj (defaultRules ! 11)"
  "moduleHeap ! 12 = ListObj [0, 1, 2, 3, 4, 5, 6, 7, 8, 9, 10, 11]"
  "moduleHeap ! 13 = RuleObj (germanRules ! 0)"
  "moduleHeap ! 14 = ListObj [13]"
  "moduleHeap ! 15 = RuleObj (japaneseRules ! 0)"
  "moduleHeap ! 16 = ListObj [15]"
  "moduleHeap ! 17 = RuleObj (hebrewRules ! 0)"
  "moduleHeap ! 18 = ListObj [17]"
  by (simp_all add: moduleHeap_def defaultRules_def germanRules_def japaneseRules_def hebrewRules_def
      protectRules_def restoreRules_def upt_rec)

lemma copy_defaults:
  "copyRules (moduleHeap @ t) 0 [0, 1, 2, 3, 4, 5, 6, 7, 8, 9, 10, 11]
     = Inr (moduleHeap @ t @ [RuleObj (defaultRules ! 0), RuleObj (defaultRules ! 2),
              RuleObj (defaultRules ! 5), RuleObj (defaultRules ! 11)],
            [28 + length t, 1, 29 + length t, 3, 4, 30 + length t, 6, 7, 8, 9, 10, 31 + length t])"
  by (simp add: overrideRuleIndices_def lookup_loaded moduleHeap_nth length_moduleHeap
      lookup_loaded [of _ "t @ _", simplified])

definition overrideValue :: "jsstring \<Rightarrow> nat \<Rightarrow> replacer \<Rightarrow> replacer" where
  "overrideValue key k d =
     (case languageSpecificOverrides key of
        Some vs \<Rightarrow> if k < length vs then Template (vs ! k) else d
      | None \<Rightarrow> d)"

definition extraRefs :: "jsstring \<Rightarrow> nat list" where
  "extraRefs key = (if key = js ''de'' then [13] else if key = js ''ja'' then [15]
     else if key = js ''he'' then [17] else [])"

lemma defaultRules_nth:
  "defaultRules ! 0 = Rule doubleQuotedText (Template (0x201C # js ''$1'' @ [0x201D]))"
  "defaultRules ! 2 = Rule singleQuotedText (Template (0x2018 # js ''$1'' @ [0x2019]))"
  "defaultRules ! 5 = Rule apostrophes (Template [0x2019])"
  "defaultRules ! 11 = Rule hyphens (Template [0x2010])"
  by (simp_all add: defaultRules_def)

lemma prototype_keys_not_own:
  "key \<in> set objectPrototypeKeys \<Longrightarrow> languageSpecificOverrides key = None"
  unfolding objectPrototypeKeys_def set_map list.set image_insert image_empty insert_iff empty_iff
  by (elim disjE) (simp_all add: languageSpecificOverrides_def js_def)

definition afterCopy :: "heap \<Rightarrow> heap" where
  "afterCopy t = moduleHeap @ t @ [RuleObj (defaultRules ! 0), RuleObj (defaultRules ! 2),
              RuleObj (defaultRules ! 5), RuleObj (defaultRules ! 11),
              ListObj [28 + length t, 1, 29 + length t, 3, 4, 30 + length t, 6, 7, 8, 9, 10, 31 + length t]]"

lemma resolve_unfold:
  "punctuationRulesForLanguage (moduleHeap @ t) language =
     (case (case getProperty languageSpecificOverrides (propertyKey language) of
              Missing \<Rightarrow> Inr (afterCopy t)
            | Inherited \<Rightarrow> Inl TypeError
            | Own values \<Rightarrow> overwrite (afterCopy t) (32 + length t) 0 values) of
        Inl e \<Rightarrow> Inl e
      | Inr h3 \<Rightarrow>
          (case (case getProperty languageSpecificRules (propertyKey language) of
                   Missing \<Rightarrow> Inr h3
                 | Inherited \<Rightarrow> Inl TypeError
                 | Own extra \<Rightarrow>
                     (case lookup h3 extra of
                        Some (ListObj refs) \<Rightarrow> push h3 (32 + length t) refs
                      | _ \<Rightarrow> Inl TypeError)) of
             Inl e \<Rightarrow> Inl e
           | Inr h4 \<Rightarrow> Inr (h4, 32 + length t)))"
proof -
  have l: "lookup (moduleHeap @ t) punctuationRules = Some (ListObj [0, 1, 2, 3, 4, 5, 6, 7, 8, 9, 10, 11])"
    by (simp add: punctuationRules_def lookup_loaded moduleHeap_nth)
  have n: "length (moduleHeap @ t @ [RuleObj (defaultRules ! 0), RuleObj (defaultRules ! 2),
              RuleObj (defaultRules ! 5), RuleObj (defaultRules ! 11)]) = 32 + length t"
    by (simp add: length_moduleHeap)
  show ?thesis
    unfolding punctuationRulesForLanguage_def l option.case obj.case copy_defaults sum.case prod.case
      Let_def n afterCopy_def
    by (simp only: append_assoc append_Cons append_Nil)
qed

lemma overrides_shape:
  "languageSpecificOverrides key = Some vs \<Longrightarrow> (\<exists>a b. vs = [a, b]) \<or> (\<exists>a b c d. vs = [a, b, c, d])"
  by (auto simp: languageSpecificOverrides_def split: if_splits)

lemma overwrite_two:
  "overwrite (moduleHeap @ t @ [RuleObj (Rule s0 r0), RuleObj (Rule s2 r2), o5, o11,
       ListObj ((28 + length t) # x1 # (29 + length t) # refs)]) (32 + length t) 0 [a, b]
   = Inr (moduleHeap @ t @ [RuleObj (Rule s0 (Template a)), RuleObj (Rule s2 (Template b)), o5, o11,
       ListObj ((28 + length t) # x1 # (29 + length t) # refs)])"
  by (simp add: overrideRuleIndices_def setReplaceValue_def lookup_def nth_append length_moduleHeap
      list_update_append)

lemma overwrite_four:
  "overwrite (moduleHeap @ t @ [RuleObj (Rule s0 r0), RuleObj (Rule s2 r2), RuleObj (Rule s5 r5),
       RuleObj (Rule s11 r11),
       ListObj [28 + length t, x1, 29 + length t, x3, x4, 30 + length t, x6, x7, x8, x9, x10, 31 + length t]])
       (32 + length t) 0 [a, b, c, d]
   = Inr (moduleHeap @ t @ [RuleObj (Rule s0 (Template a)), RuleObj (Rule s2 (Template b)),
       RuleObj (Rule s5 (Template c)), RuleObj (Rule s11 (Template d)),
       ListObj [28 + length t, x1, 29 + length t, x3, x4, 30 + length t, x6, x7, x8, x9, x10, 31 + length t]])"
  by (simp add: overrideRuleIndices_def setReplaceValue_def lookup_def nth_append length_moduleHeap
      list_update_append)

lemma push_one:
  "push (moduleHeap @ t @ [o0, o2, o5, o11, ListObj refs]) (32 + length t) [r]
   = Inr (moduleHeap @ t @ [o0, o2, o5, o11, ListObj (refs @ [r])])"
  by (simp add: lookup_def nth_append length_moduleHeap list_update_append)

lemma lookup_extra:
  "languageSpecificRules key = Some a \<Longrightarrow>
   lookup (moduleHeap @ t) a = Some (ListObj (extraRefs key)) \<and> (\<exists>r. extraRefs key = [r])"
  by (auto simp: languageSpecificRules_def extraRefs_def lookup_loaded moduleHeap_nth split: if_splits)

lemma extraRefs_none: "languageSpecificRules key = None \<Longrightarrow> extraRefs key = []"
  by (auto simp: languageSpecificRules_def extraRefs_def split: if_splits)

lemma prototype_keys_no_rules:
  "key \<in> set objectPrototypeKeys \<Longrightarrow> languageSpecificRules key = None"
  by (auto simp: objectPrototypeKeys_def languageSpecificRules_def js_def)


lemma resolve_inherited:
  "propertyKey language \<in> set objectPrototypeKeys \<Longrightarrow>
   punctuationRulesForLanguage (moduleHeap @ t) language = Inl TypeError"
  by (simp only: resolve_unfold getProperty_def prototype_keys_not_own option.case if_True
      property.case sum.case)

definition extraRules :: "jsstring \<Rightarrow> rule list" where
  "extraRules key = (if key = js ''de'' then germanRules else if key = js ''ja'' then japaneseRules
     else if key = js ''he'' then hebrewRules else [])"

lemma resolve_own:
  assumes "propertyKey language \<notin> set objectPrototypeKeys"
  shows "punctuationRulesForLanguage (moduleHeap @ t) language =
     Inr (moduleHeap @ t @
       [RuleObj (Rule doubleQuotedText (overrideValue (propertyKey language) 0 (Template (0x201C # js ''$1'' @ [0x201D])))),
        RuleObj (Rule singleQuotedText (overrideValue (propertyKey language) 1 (Template (0x2018 # js ''$1'' @ [0x2019])))),
        RuleObj (Rule apostrophes (overrideValue (propertyKey language) 2 (Template [0x2019]))),
        RuleObj (Rule hyphens (overrideValue (propertyKey language) 3 (Template [0x2010]))),
        ListObj ([28 + length t, 1, 29 + length t, 3, 4, 30 + length t, 6, 7, 8, 9, 10, 31 + length t]
                 @ extraRefs (propertyKey language))],
       32 + length t)"
proof -
  let ?k = "propertyKey language"
  let ?refs = "[28 + length t, 1, 29 + length t, 3, 4, 30 + length t, 6, 7, 8, 9, 10, 31 + length t]"
  let ?h3 = "moduleHeap @ t @
       [RuleObj (Rule doubleQuotedText (overrideValue ?k 0 (Template (0x201C # js ''$1'' @ [0x201D])))),
        RuleObj (Rule singleQuotedText (overrideValue ?k 1 (Template (0x2018 # js ''$1'' @ [0x2019])))),
        RuleObj (Rule apostrophes (overrideValue ?k 2 (Template [0x2019]))),
        RuleObj (Rule hyphens (overrideValue ?k 3 (Template [0x2010]))),
        ListObj ?refs]"
  have first: "(case getProperty languageSpecificOverrides ?k of
              Missing \<Rightarrow> Inr (afterCopy t)
            | Inherited \<Rightarrow> Inl TypeError
            | Own values \<Rightarrow> overwrite (afterCopy t) (32 + length t) 0 values) = Inr ?h3"
  proof (cases "languageSpecificOverrides ?k")
    case None
    with assms show ?thesis
      by (simp add: getProperty_def overrideValue_def afterCopy_def defaultRules_nth)
  next
    case (Some vs)
    from overrides_shape [OF Some] show ?thesis
    proof (elim disjE exE)
      fix a b assume "vs = [a, b]"
      with Some show ?thesis
        by (simp add: getProperty_def overrideValue_def afterCopy_def defaultRules_nth overwrite_two del: overwrite.simps)
    next
      fix a b c d assume "vs = [a, b, c, d]"
      with Some show ?thesis
        by (simp add: getProperty_def overrideValue_def afterCopy_def defaultRules_nth overwrite_four del: overwrite.simps)
    qed
  qed
  have second: "(case getProperty languageSpecificRules ?k of
                   Missing \<Rightarrow> Inr ?h3
                 | Inherited \<Rightarrow> Inl TypeError
                 | Own extra \<Rightarrow>
                     (case lookup ?h3 extra of
                        Some (ListObj refs) \<Rightarrow> push ?h3 (32 + length t) refs
                      | _ \<Rightarrow> Inl TypeError))
      = Inr (moduleHeap @ t @
       [RuleObj (Rule doubleQuotedText (overrideValue ?k 0 (Template (0x201C # js ''$1'' @ [0x201D])))),
        RuleObj (Rule singleQuotedText (overrideValue ?k 1 (Template (0x2018 # js ''$1'' @ [0x2019])))),
        RuleObj (Rule apostrophes (overrideValue ?k 2 (Template [0x2019]))),
        RuleObj (Rule hyphens (overrideValue ?k 3 (Template [0x2010]))),
        ListObj (?refs @ extraRefs ?k)])"
  proof (cases "languageSpecificRules ?k")
    case None
    with assms show ?thesis
      by (simp add: getProperty_def extraRefs_none)
  next
    case (Some a)
    from lookup_extra [OF Some, of "t @ _"] obtain r where
      "lookup ?h3 a = Some (ListObj (extraRefs ?k))" and "extraRefs ?k = [r]"
      by auto
    with Some show ?thesis
      by (simp add: getProperty_def push_one del: push.simps)
  qed
  show ?thesis
    by (simp only: resolve_unfold first second sum.case)
qed

lemma those_map_Some: "those (map Some xs) = Some xs"
  by (induction xs) auto

lemma extra_rules_at:
  "map (ruleAt (moduleHeap @ t)) (extraRefs key) = map Some (extraRules key)"
  by (simp add: extraRefs_def extraRules_def ruleAt_def lookup_loaded moduleHeap_nth
      germanRules_def japaneseRules_def hebrewRules_def)

lemma rulesAt_resolved:
  "rulesAt (moduleHeap @ t @ [RuleObj a0, RuleObj a2, RuleObj a5, RuleObj a11,
      ListObj ([28 + length t, 1, 29 + length t, 3, 4, 30 + length t, 6, 7, 8, 9, 10, 31 + length t]
               @ extraRefs key)]) (32 + length t)
   = Some ([a0, defaultRules ! 1, a2, defaultRules ! 3, defaultRules ! 4, a5, defaultRules ! 6,
            defaultRules ! 7, defaultRules ! 8, defaultRules ! 9, defaultRules ! 10, a11]
           @ extraRules key)"
proof -
  let ?h = "moduleHeap @ t @ [RuleObj a0, RuleObj a2, RuleObj a5, RuleObj a11,
      ListObj ([28 + length t, 1, 29 + length t, 3, 4, 30 + length t, 6, 7, 8, 9, 10, 31 + length t]
               @ extraRefs key)]"
  have a: "map (ruleAt ?h) [28 + length t, 1, 29 + length t, 3, 4, 30 + length t, 6, 7, 8, 9, 10, 31 + length t]
      = map Some [a0, defaultRules ! 1, a2, defaultRules ! 3, defaultRules ! 4, a5, defaultRules ! 6,
            defaultRules ! 7, defaultRules ! 8, defaultRules ! 9, defaultRules ! 10, a11]"
    by (simp add: ruleAt_def lookup_def nth_append length_moduleHeap moduleHeap_nth
        moduleHeap_nth(2) [unfolded One_nat_def])
  have b: "map (ruleAt ?h) (extraRefs key) = map Some (extraRules key)"
    by (rule extra_rules_at)
  have l: "lookup ?h (32 + length t) = Some (ListObj ([28 + length t, 1, 29 + length t, 3, 4,
      30 + length t, 6, 7, 8, 9, 10, 31 + length t] @ extraRefs key))"
    by (simp add: lookup_def nth_append length_moduleHeap)
  show ?thesis
    unfolding rulesAt_def l option.case obj.case map_append a b
    by (simp only: map_append [symmetric] those_map_Some)
qed

section \<open>The rules of each language\<close>

definition loaded :: "heap \<Rightarrow> bool" where
  "loaded h = (take (length moduleHeap) h = moduleHeap)"

lemma loaded_append: "loaded h \<Longrightarrow> \<exists>t. h = moduleHeap @ t"
  unfolding loaded_def by (metis append_take_drop_id)

lemma loaded_moduleHeap: "loaded moduleHeap"
  by (simp add: loaded_def)

definition resolvedRules :: "jsstring \<Rightarrow> rule list" where
  "resolvedRules key =
     [Rule doubleQuotedText (overrideValue key 0 (Template (0x201C # js ''$1'' @ [0x201D]))),
      defaultRules ! 1,
      Rule singleQuotedText (overrideValue key 1 (Template (0x2018 # js ''$1'' @ [0x2019]))),
      defaultRules ! 3, defaultRules ! 4,
      Rule apostrophes (overrideValue key 2 (Template [0x2019])),
      defaultRules ! 6, defaultRules ! 7, defaultRules ! 8, defaultRules ! 9, defaultRules ! 10,
      Rule hyphens (overrideValue key 3 (Template [0x2010]))]
     @ extraRules key"

lemma resolved:
  assumes "loaded h" and "propertyKey language \<notin> set objectPrototypeKeys"
  shows "\<exists>h' a. punctuationRulesForLanguage h language = Inr (h', a)
           \<and> rulesAt h' a = Some (resolvedRules (propertyKey language))"
proof -
  from assms(1) obtain t where h: "h = moduleHeap @ t"
    using loaded_append by blast
  let ?k = "propertyKey language"
  let ?h' = "moduleHeap @ t @
       [RuleObj (Rule doubleQuotedText (overrideValue ?k 0 (Template (0x201C # js ''$1'' @ [0x201D])))),
        RuleObj (Rule singleQuotedText (overrideValue ?k 1 (Template (0x2018 # js ''$1'' @ [0x2019])))),
        RuleObj (Rule apostrophes (overrideValue ?k 2 (Template [0x2019]))),
        RuleObj (Rule hyphens (overrideValue ?k 3 (Template [0x2010]))),
        ListObj ([28 + length t, 1, 29 + length t, 3, 4, 30 + length t, 6, 7, 8, 9, 10, 31 + length t]
                 @ extraRefs ?k)]"
  have 1: "punctuationRulesForLanguage h language = Inr (?h', 32 + length t)"
    unfolding h by (rule resolve_own [OF assms(2)])
  have 2: "rulesAt ?h' (32 + length t) = Some (resolvedRules ?k)"
    unfolding resolvedRules_def by (rule rulesAt_resolved)
  from 1 2 show ?thesis by blast
qed

lemma resolvedRules_shape:
  "resolvedRules key =
     [Rule doubleQuotedText (overrideValue key 0 (Template (0x201C # js ''$1'' @ [0x201D]))),
      Rule specialCaseN (Template (0x2019 # js ''$1'' @ [0x2019])),
      Rule singleQuotedText (overrideValue key 1 (Template (0x2018 # js ''$1'' @ [0x2019]))),
      Rule doublePrimes (Template (js ''$1'' @ [0x2033])),
      Rule singlePrimes (Template (js ''$1'' @ [0x2032] @ js ''$2'')),
      Rule apostrophes (overrideValue key 2 (Template [0x2019])),
      Rule ellipses (Template [0x2026]),
      Rule dashSeparator (Template [0x20, 0x2013, 0x20]),
      Rule isoDates (Function DateHyphens),
      Rule groupedDigits (Function FigureDashes),
      Rule ranges (Template (js ''$1'' @ [0x2013] @ js ''$2'')),
      Rule hyphens (overrideValue key 3 (Template [0x2010]))]
     @ extraRules key"
  by (simp add: resolvedRules_def defaultRules_def)

lemma overrideValue_none:
  "languageSpecificOverrides key = None \<Longrightarrow> overrideValue key k d = d"
  by (simp add: overrideValue_def)

lemma extraRules_none: "languageSpecificRules key = None \<Longrightarrow> extraRules key = []"
  by (auto simp: languageSpecificRules_def extraRules_def split: if_splits)

lemma resolvedRules_default:
  "languageSpecificOverrides key = None \<Longrightarrow> languageSpecificRules key = None \<Longrightarrow>
   resolvedRules key = defaultRules"
  by (simp add: resolvedRules_shape overrideValue_none extraRules_none defaultRules_def)

lemma missing_property:
  "getProperty own key = Missing \<Longrightarrow> own key = None \<and> key \<notin> set objectPrototypeKeys"
  by (auto simp: getProperty_def split: option.splits if_splits)

lemma missing_language_gives_defaults:
  assumes "loaded h"
    and "getProperty languageSpecificOverrides (propertyKey language) = Missing"
    and "getProperty languageSpecificRules (propertyKey language) = Missing"
  shows "\<exists>h' a. punctuationRulesForLanguage h language = Inr (h', a) \<and> rulesAt h' a = Some defaultRules"
proof -
  from missing_property [OF assms(2)] missing_property [OF assms(3)]
  have k: "propertyKey language \<notin> set objectPrototypeKeys"
    and o: "languageSpecificOverrides (propertyKey language) = None"
    and r: "languageSpecificRules (propertyKey language) = None"
    by simp_all
  from resolved [OF assms(1) k] show ?thesis
    by (simp only: resolvedRules_default [OF o r])
qed

lemma unknown_key_missing:
  "getProperty languageSpecificOverrides (propertyKey (Some (js ''xx''))) = Missing"
  "getProperty languageSpecificRules (propertyKey (Some (js ''xx''))) = Missing"
  "getProperty languageSpecificOverrides (propertyKey None) = Missing"
  "getProperty languageSpecificRules (propertyKey None) = Missing"
  by (simp_all add: getProperty_def propertyKey_def languageSpecificOverrides_def
      languageSpecificRules_def objectPrototypeKeys_def js_def)

lemma constructor_inherited:
  "propertyKey (Some (js ''constructor'')) \<in> set objectPrototypeKeys"
  by (simp add: propertyKey_def objectPrototypeKeys_def)

text \<open>
  Claim C3 fails on the code. The two tables are plain objects, read with
  \<open>table[language]?.forEach(...)\<close>: the lookup also finds the properties that a plain object
  inherits from \<open>Object.prototype\<close>, and \<open>?.\<close> skips the call only when nothing is found.
  So for a language that names an inherited property (\<open>constructor\<close>, \<open>toString\<close>,
  \<open>valueOf\<close>, \<open>__proto__\<close>, ...), which has an entry in neither table, the function
  raises a \<open>TypeError\<close>, from every store that holds the module's objects; whereas an
  unknown code such as \<open>xx\<close>, and an absent language, get the default rules.
\<close>

theorem inherited_language_key_raises:
  assumes "loaded h" and "propertyKey language \<in> set objectPrototypeKeys"
  shows "languageSpecificOverrides (propertyKey language) = None
    \<and> languageSpecificRules (propertyKey language) = None
    \<and> punctuationRulesForLanguage h language = Inl TypeError
    \<and> (\<exists>h' a. punctuationRulesForLanguage h (Some (js ''xx'')) = Inr (h', a)
          \<and> rulesAt h' a = Some defaultRules)
    \<and> (\<exists>h' a. punctuationRulesForLanguage h None = Inr (h', a)
          \<and> rulesAt h' a = Some defaultRules)"
proof -
  from assms(1) obtain t where h: "h = moduleHeap @ t"
    using loaded_append by blast
  have 1: "languageSpecificOverrides (propertyKey language) = None"
    by (rule prototype_keys_not_own [OF assms(2)])
  have 2: "languageSpecificRules (propertyKey language) = None"
    by (rule prototype_keys_no_rules [OF assms(2)])
  have 3: "punctuationRulesForLanguage h language = Inl TypeError"
    unfolding h by (rule resolve_inherited [OF assms(2)])
  have 4: "\<exists>h' a. punctuationRulesForLanguage h (Some (js ''xx'')) = Inr (h', a)
          \<and> rulesAt h' a = Some defaultRules"
    by (rule missing_language_gives_defaults [OF assms(1) unknown_key_missing(1,2)])
  have 5: "\<exists>h' a. punctuationRulesForLanguage h None = Inr (h', a)
          \<and> rulesAt h' a = Some defaultRules"
    by (rule missing_language_gives_defaults [OF assms(1) unknown_key_missing(3,4)])
  from 1 2 3 4 5 show ?thesis by (intro conjI)
qed

theorem inherited_language_key_raises_witness:
  "loaded moduleHeap
   \<and> propertyKey (Some (js ''constructor'')) \<in> set objectPrototypeKeys
   \<and> languageSpecificOverrides (propertyKey (Some (js ''constructor''))) = None
   \<and> languageSpecificRules (propertyKey (Some (js ''constructor''))) = None
   \<and> punctuationRulesForLanguage moduleHeap (Some (js ''constructor'')) = Inl TypeError
   \<and> (\<exists>h' a. punctuationRulesForLanguage moduleHeap (Some (js ''xx'')) = Inr (h', a)
          \<and> rulesAt h' a = Some defaultRules)
   \<and> (\<exists>h' a. punctuationRulesForLanguage moduleHeap None = Inr (h', a)
          \<and> rulesAt h' a = Some defaultRules)"
  using loaded_moduleHeap constructor_inherited
    inherited_language_key_raises [OF loaded_moduleHeap constructor_inherited]
  by (simp only: simp_thms)

subsection \<open>Quotation marks by language\<close>

lemma tail_unchanged:
  assumes "0x22 \<notin> set (s :: jsstring)" and "0x27 \<notin> set s" and "0x2D \<notin> set s" and "\<not> hasEllipsis s"
  shows "transform H s (Rule specialCaseN r1 # Rule singleQuotedText r2 # Rule doublePrimes r3
      # Rule singlePrimes r4 # Rule apostrophes r5 # Rule ellipses r6 # Rule dashSeparator r7
      # Rule isoDates r8 # Rule groupedDigits r9 # Rule ranges r10 # Rule hyphens r11 # rest)
    = transform H s rest"
proof -
  note unchanged = specialCaseN_absent [OF assms(2)]
    singleQuotedText_absent [OF assms(2)] doublePrimes_absent [OF assms(1)]
    singlePrimes_absent [OF assms(2)] apostrophes_absent [OF assms(2)] ellipses_absent [OF assms(4)]
    dashSeparator_absent [OF assms(3)] isoDates_absent [OF assms(3)] groupedDigits_absent [OF assms(3)]
    ranges_absent [OF assms(3)] hyphens_absent [OF assms(3)]
  show ?thesis
    by (simp only: transform.simps sum.case unchanged)
qed

lemma matchers_fixed:
  "map searchValueOf (take 12 (resolvedRules key)) = map searchValueOf defaultRules"
  by (simp add: resolvedRules_shape defaultRules_def)

lemma bonjour_fr_0:
  "replace H (0x22 # js ''Bonjour'' @ [0x22]) doubleQuotedText (Template ([0xAB] @ js '' $1 '' @ [0xBB]))
     = Inr ([0xAB, 0x20] @ js ''Bonjour'' @ [0x20, 0xBB])"
  by (simp add: rx_defs eval_defs)

lemma bonjour_de_0:
  "replace H (0x22 # js ''Bonjour'' @ [0x22]) doubleQuotedText (Template (0x201E # js ''$1'' @ [0x201C]))
     = Inr (0x201E # js ''Bonjour'' @ [0x201C])"
  by (simp add: rx_defs eval_defs)

lemma bonjour_en_0:
  "replace H (0x22 # js ''Bonjour'' @ [0x22]) doubleQuotedText (Template (0x201C # js ''$1'' @ [0x201D]))
     = Inr (0x201C # js ''Bonjour'' @ [0x201D])"
  by (simp add: rx_defs eval_defs)

lemma abbreviatedCompounds_absent:
  "0x2D \<notin> set (s :: jsstring) \<Longrightarrow> replace H s abbreviatedCompounds rep = Inr s"
  by (rule replace_needs [where ch = "0x2D"]) (simp_all add: rx_defs abbreviatedCompounds_def)

lemma french_overrides:
  "overrideValue (js ''fr'') 0 d = Template ([0xAB] @ js '' $1 '' @ [0xBB])"
  "extraRules (js ''fr'') = []"
  by (simp_all add: overrideValue_def languageSpecificOverrides_def extraRules_def js_def)

lemma german_overrides:
  "overrideValue (js ''de'') 0 d = Template (0x201E # js ''$1'' @ [0x201C])"
  "extraRules (js ''de'') = germanRules"
  by (simp_all add: overrideValue_def languageSpecificOverrides_def extraRules_def js_def)

lemma absent_overrides:
  "overrideValue (js ''undefined'') 0 d = d"
  "extraRules (js ''undefined'') = []"
  by (simp_all add: overrideValue_def languageSpecificOverrides_def extraRules_def js_def)

lemma resolvedRules_cons:
  "resolvedRules key =
     Rule doubleQuotedText (overrideValue key 0 (Template (0x201C # js ''$1'' @ [0x201D])))
     # Rule specialCaseN (Template (0x2019 # js ''$1'' @ [0x2019]))
     # Rule singleQuotedText (overrideValue key 1 (Template (0x2018 # js ''$1'' @ [0x2019])))
     # Rule doublePrimes (Template (js ''$1'' @ [0x2033]))
     # Rule singlePrimes (Template (js ''$1'' @ [0x2032] @ js ''$2''))
     # Rule apostrophes (overrideValue key 2 (Template [0x2019]))
     # Rule ellipses (Template [0x2026])
     # Rule dashSeparator (Template [0x20, 0x2013, 0x20])
     # Rule isoDates (Function DateHyphens)
     # Rule groupedDigits (Function FigureDashes)
     # Rule ranges (Template (js ''$1'' @ [0x2013] @ js ''$2''))
     # Rule hyphens (overrideValue key 3 (Template [0x2010]))
     # extraRules key"
  by (simp add: resolvedRules_shape)

lemma bonjour_fr:
  "transform H (0x22 # js ''Bonjour'' @ [0x22]) (resolvedRules (js ''fr'')) = Inr ([0xAB, 0x20] @ js ''Bonjour'' @ [0x20, 0xBB])"
proof -
  have m: "0x22 \<notin> set ([0xAB, 0x20] @ js ''Bonjour'' @ [0x20, 0xBB])" "0x27 \<notin> set ([0xAB, 0x20] @ js ''Bonjour'' @ [0x20, 0xBB])"
    "0x2D \<notin> set ([0xAB, 0x20] @ js ''Bonjour'' @ [0x20, 0xBB])" "\<not> hasEllipsis ([0xAB, 0x20] @ js ''Bonjour'' @ [0x20, 0xBB])"
    by (simp_all add: js_def)
  show ?thesis
    unfolding resolvedRules_cons french_overrides
    apply (subst transform.simps(2))
    apply (simp only: bonjour_fr_0 sum.case tail_unchanged [OF m] transform.simps(1))
    done
qed

lemma bonjour_de:
  "transform H (0x22 # js ''Bonjour'' @ [0x22]) (resolvedRules (js ''de'')) = Inr (0x201E # js ''Bonjour'' @ [0x201C])"
proof -
  have m: "0x22 \<notin> set (0x201E # js ''Bonjour'' @ [0x201C])" "0x27 \<notin> set (0x201E # js ''Bonjour'' @ [0x201C])"
    "0x2D \<notin> set (0x201E # js ''Bonjour'' @ [0x201C])" "\<not> hasEllipsis (0x201E # js ''Bonjour'' @ [0x201C])"
    by (simp_all add: js_def)
  have g: "transform H (0x201E # js ''Bonjour'' @ [0x201C]) germanRules = Inr (0x201E # js ''Bonjour'' @ [0x201C])"
    unfolding germanRules_def
    by (simp only: transform.simps abbreviatedCompounds_absent [OF m(3)] sum.case)
  show ?thesis
    unfolding resolvedRules_cons german_overrides
    apply (subst transform.simps(2))
    apply (simp only: bonjour_de_0 sum.case tail_unchanged [OF m] g)
    done
qed

lemma bonjour_en:
  "transform H (0x22 # js ''Bonjour'' @ [0x22]) (resolvedRules (js ''undefined'')) = Inr (0x201C # js ''Bonjour'' @ [0x201D])"
proof -
  have m: "0x22 \<notin> set (0x201C # js ''Bonjour'' @ [0x201D])" "0x27 \<notin> set (0x201C # js ''Bonjour'' @ [0x201D])"
    "0x2D \<notin> set (0x201C # js ''Bonjour'' @ [0x201D])" "\<not> hasEllipsis (0x201C # js ''Bonjour'' @ [0x201D])"
    by (simp_all add: js_def)
  show ?thesis
    unfolding resolvedRules_cons absent_overrides
    apply (subst transform.simps(2))
    apply (simp only: bonjour_en_0 sum.case tail_unchanged [OF m] transform.simps(1))
    done
qed

lemma language_keys:
  "propertyKey (Some (js ''fr'')) \<notin> set objectPrototypeKeys"
  "propertyKey (Some (js ''de'')) \<notin> set objectPrototypeKeys"
  "propertyKey None \<notin> set objectPrototypeKeys"
  by (simp_all add: propertyKey_def objectPrototypeKeys_def js_def)

text \<open>
  Claim C8. With the module's objects as loaded, the rules resolved for \<open>fr\<close> turn the input
  \<open>"Bonjour"\<close> into U+00AB, space, \<open>Bonjour\<close>, space, U+00BB; those for \<open>de\<close> into U+201E
  \<open>Bonjour\<close> U+201C; those for no language into U+201C \<open>Bonjour\<close> U+201D. In each rule set the
  search values of the twelve default positions are those of the default rules: the override
  writes the replace value only.
\<close>

theorem bonjour_by_language:
  assumes "loaded h"
  shows "(\<exists>h' a rs. punctuationRulesForLanguage h (Some (js ''fr'')) = Inr (h', a)
        \<and> rulesAt h' a = Some rs
        \<and> transform H (0x22 # js ''Bonjour'' @ [0x22]) rs = Inr ([0xAB, 0x20] @ js ''Bonjour'' @ [0x20, 0xBB])
        \<and> map searchValueOf (take 12 rs) = map searchValueOf defaultRules)
   \<and> (\<exists>h' a rs. punctuationRulesForLanguage h (Some (js ''de'')) = Inr (h', a)
        \<and> rulesAt h' a = Some rs
        \<and> transform H (0x22 # js ''Bonjour'' @ [0x22]) rs = Inr (0x201E # js ''Bonjour'' @ [0x201C])
        \<and> map searchValueOf (take 12 rs) = map searchValueOf defaultRules)
   \<and> (\<exists>h' a rs. punctuationRulesForLanguage h None = Inr (h', a)
        \<and> rulesAt h' a = Some rs
        \<and> transform H (0x22 # js ''Bonjour'' @ [0x22]) rs = Inr (0x201C # js ''Bonjour'' @ [0x201D])
        \<and> map searchValueOf (take 12 rs) = map searchValueOf defaultRules)"
proof -
  from resolved [OF assms language_keys(1)] resolved [OF assms language_keys(2)]
    resolved [OF assms language_keys(3)]
  show ?thesis
    unfolding propertyKey_def option.case
    using bonjour_fr [of H] bonjour_de [of H] bonjour_en [of H] matchers_fixed
    by (metis (no_types))
qed

theorem bonjour_by_language_witness:
  "loaded moduleHeap \<and> ((\<exists>h' a rs. punctuationRulesForLanguage moduleHeap (Some (js ''fr'')) = Inr (h', a)
        \<and> rulesAt h' a = Some rs
        \<and> transform \<lparr>isLetter = (\<lambda>c. False), lenientDays = False, legacyDates = False\<rparr> (0x22 # js ''Bonjour'' @ [0x22]) rs = Inr ([0xAB, 0x20] @ js ''Bonjour'' @ [0x20, 0xBB])
        \<and> map searchValueOf (take 12 rs) = map searchValueOf defaultRules)
   \<and> (\<exists>h' a rs. punctuationRulesForLanguage moduleHeap (Some (js ''de'')) = Inr (h', a)
        \<and> rulesAt h' a = Some rs
        \<and> transform \<lparr>isLetter = (\<lambda>c. False), lenientDays = False, legacyDates = False\<rparr> (0x22 # js ''Bonjour'' @ [0x22]) rs = Inr (0x201E # js ''Bonjour'' @ [0x201C])
        \<and> map searchValueOf (take 12 rs) = map searchValueOf defaultRules)
   \<and> (\<exists>h' a rs. punctuationRulesForLanguage moduleHeap None = Inr (h', a)
        \<and> rulesAt h' a = Some rs
        \<and> transform \<lparr>isLetter = (\<lambda>c. False), lenientDays = False, legacyDates = False\<rparr> (0x22 # js ''Bonjour'' @ [0x22]) rs = Inr (0x201C # js ''Bonjour'' @ [0x201D])
        \<and> map searchValueOf (take 12 rs) = map searchValueOf defaultRules))"
  using loaded_moduleHeap bonjour_by_language [OF loaded_moduleHeap] by (simp only: simp_thms)

subsection \<open>The order of the rules\<close>

lemma transform_single:
  "transform H w [r] = replace H w (searchValueOf r) (replaceValueOf r)"
  by (cases r) (simp split: sum.splits)

lemma transform_step:
  assumes "n < length rs"
  shows "transform H v (take (Suc n) rs) =
    (case transform H v (take n rs) of
       Inl e \<Rightarrow> Inl e
     | Inr w \<Rightarrow> replace H w (searchValueOf (rs ! n)) (replaceValueOf (rs ! n)))"
  by (simp only: take_Suc_conv_app_nth [OF assms] transform_append transform_single)

lemma raised_stays:
  "foldl (\<lambda>acc r. case acc of Inl e \<Rightarrow> Inl e | Inr w \<Rightarrow> f w r) (Inl e) rs = Inl e"
  by (induction rs) simp_all

lemma transform_fold:
  "transform H v rs =
     foldl (\<lambda>acc r. case acc of
                       Inl e \<Rightarrow> Inl e
                     | Inr w \<Rightarrow> replace H w (searchValueOf r) (replaceValueOf r))
       (Inr v) rs"
proof (induction rs arbitrary: v)
  case Nil
  show ?case by simp
next
  case (Cons r rs)
  obtain s rep where r: "r = Rule s rep" by (cases r)
  show ?case
    by (cases "replace H v s rep") (simp_all add: r Cons raised_stays)
qed

lemma transform_split:
  "transform H v rs =
    (case transform H v (take n rs) of Inl e \<Rightarrow> Inl e | Inr w \<Rightarrow> transform H w (drop n rs))"
  using transform_append [of H v "take n rs" "drop n rs"] by simp

lemma extraRules_global: "\<forall>r \<in> set (extraRules key). global (searchValueOf r)"
  by (simp add: extraRules_def germanRules_def japaneseRules_def hebrewRules_def
      abbreviatedCompounds_def dashBrackets_def hebrewAcronyms_def rx_def)

lemma resolvedRules_global: "\<forall>r \<in> set (resolvedRules key). global (searchValueOf r)"
  using extraRules_global [of key] by (simp add: resolvedRules_shape rx_defs)

lemma resolvedRules_matchers:
  "map searchValueOf (take 12 (resolvedRules key)) =
     [doubleQuotedText, specialCaseN, singleQuotedText, doublePrimes, singlePrimes, apostrophes,
      ellipses, dashSeparator, isoDates, groupedDigits, ranges, hyphens]"
  by (simp add: resolvedRules_shape)

lemma resolvedRules_extra: "drop 12 (resolvedRules key) = extraRules key"
  by (simp add: resolvedRules_shape)

lemma extraRules_stored:
  assumes "loaded h"
  shows "(case languageSpecificRules key of
            None \<Rightarrow> extraRules key = []
          | Some e \<Rightarrow> rulesAt h e = Some (extraRules key))"
proof -
  from assms obtain t where h: "h = moduleHeap @ t"
    using loaded_append by blast
  show ?thesis
    unfolding h
    by (simp add: languageSpecificRules_def extraRules_def rulesAt_def ruleAt_def lookup_loaded
        moduleHeap_nth germanRules_def japaneseRules_def hebrewRules_def)
qed

lemma defaults_stored:
  assumes "loaded h"
  shows "rulesAt h punctuationRules = Some defaultRules"
proof -
  from assms obtain t where h: "h = moduleHeap @ t"
    using loaded_append by blast
  have "map (ruleAt (moduleHeap @ t)) [0, 1, 2, 3, 4, 5, 6, 7, 8, 9, 10, 11] = map Some defaultRules"
    by (simp add: ruleAt_def lookup_loaded moduleHeap_nth moduleHeap_nth(2) [unfolded One_nat_def]
        defaultRules_def)
  then show ?thesis
    unfolding h rulesAt_def punctuationRules_def
    by (simp add: lookup_loaded moduleHeap_nth those_map_Some)
qed

text \<open>
  Claim C1. With the module's objects as loaded, the array \<open>punctuationRules\<close> holds the default
  rules, and the rules resolved for a language (one that raises no error) have, in their first
  twelve positions, the search values double-quoted text, 'n', single-quoted text, double primes,
  single primes, apostrophes, ellipsis, dash separator, ISO dates, grouped digits, ranges,
  hyphens, in this order, followed by exactly the additional rules stored for the language.
  Every search value has the global flag. \<open>transform\<close> applies the rules one after the other
  to the input: with no rule it returns the input; the result of the first \<open>n + 1\<close> rules is
  the \<open>n\<close>-th rule's replace on the result of the first \<open>n\<close> rules; the additional rules run on
  the result of the first twelve; and the result of all rules is the fold of replace over the
  rules from left to right, started at the input, which stops at the first error raised.
\<close>

theorem rules_in_fixed_order:
  assumes "loaded h" and "propertyKey language \<notin> set objectPrototypeKeys"
  shows "rulesAt h punctuationRules = Some defaultRules
    \<and> (\<exists>h' a rs. punctuationRulesForLanguage h language = Inr (h', a) \<and> rulesAt h' a = Some rs
        \<and> map searchValueOf (take 12 rs) =
            [doubleQuotedText, specialCaseN, singleQuotedText, doublePrimes, singlePrimes,
             apostrophes, ellipses, dashSeparator, isoDates, groupedDigits, ranges, hyphens]
        \<and> (case languageSpecificRules (propertyKey language) of
              None \<Rightarrow> drop 12 rs = []
            | Some e \<Rightarrow> rulesAt h e = Some (drop 12 rs))
        \<and> (\<forall>r \<in> set rs. global (searchValueOf r))
        \<and> (\<forall>n < length rs. transform H v (take (Suc n) rs) =
              (case transform H v (take n rs) of
                 Inl e \<Rightarrow> Inl e
               | Inr w \<Rightarrow> replace H w (searchValueOf (rs ! n)) (replaceValueOf (rs ! n))))
        \<and> transform H v rs =
              (case transform H v (take 12 rs) of
                 Inl e \<Rightarrow> Inl e
               | Inr w \<Rightarrow> transform H w (drop 12 rs))
        \<and> transform H v [] = Inr v
        \<and> transform H v rs =
              foldl (\<lambda>acc r. case acc of
                                Inl e \<Rightarrow> Inl e
                              | Inr w \<Rightarrow> replace H w (searchValueOf r) (replaceValueOf r))
                (Inr v) rs)"
proof -
  let ?rs = "resolvedRules (propertyKey language)"
  from resolved [OF assms] obtain h' a where
    r: "punctuationRulesForLanguage h language = Inr (h', a)" "rulesAt h' a = Some ?rs"
    by blast
  have e: "(case languageSpecificRules (propertyKey language) of
              None \<Rightarrow> drop 12 ?rs = []
            | Some e \<Rightarrow> rulesAt h e = Some (drop 12 ?rs))"
    unfolding resolvedRules_extra by (rule extraRules_stored [OF assms(1)])
  have s: "\<forall>n < length ?rs. transform H v (take (Suc n) ?rs) =
              (case transform H v (take n ?rs) of
                 Inl e \<Rightarrow> Inl e
               | Inr w \<Rightarrow> replace H w (searchValueOf (?rs ! n)) (replaceValueOf (?rs ! n)))"
    using transform_step by blast
  from r resolvedRules_matchers [of "propertyKey language"] e
    resolvedRules_global [of "propertyKey language"] s transform_split [of H v ?rs 12]
    defaults_stored [OF assms(1)] transform.simps(1) [of H v] transform_fold [of H v ?rs]
  show ?thesis
    apply (intro conjI exI [of _ h'] exI [of _ a] exI [of _ ?rs])
    apply assumption+
    done
qed

theorem rules_in_fixed_order_witness:
  "loaded moduleHeap \<and> propertyKey (Some (js ''de'')) \<notin> set objectPrototypeKeys
    \<and> rulesAt moduleHeap punctuationRules = Some defaultRules
    \<and> (\<exists>h' a rs. punctuationRulesForLanguage moduleHeap (Some (js ''de'')) = Inr (h', a)
        \<and> rulesAt h' a = Some rs
        \<and> map searchValueOf (take 12 rs) =
            [doubleQuotedText, specialCaseN, singleQuotedText, doublePrimes, singlePrimes,
             apostrophes, ellipses, dashSeparator, isoDates, groupedDigits, ranges, hyphens]
        \<and> (case languageSpecificRules (propertyKey (Some (js ''de''))) of
              None \<Rightarrow> drop 12 rs = []
            | Some e \<Rightarrow> rulesAt moduleHeap e = Some (drop 12 rs))
        \<and> list_all (\<lambda>r. global (searchValueOf r)) rs
        \<and> list_all (\<lambda>n. transform \<lparr>isLetter = (\<lambda>c. False), lenientDays = False, legacyDates = False\<rparr> (js ''a - b'') (take (Suc n) rs) =
              (case transform \<lparr>isLetter = (\<lambda>c. False), lenientDays = False, legacyDates = False\<rparr> (js ''a - b'') (take n rs) of
                 Inl e \<Rightarrow> Inl e
               | Inr w \<Rightarrow> replace \<lparr>isLetter = (\<lambda>c. False), lenientDays = False, legacyDates = False\<rparr> w
                   (searchValueOf (rs ! n)) (replaceValueOf (rs ! n)))) [0..<length rs]
        \<and> transform \<lparr>isLetter = (\<lambda>c. False), lenientDays = False, legacyDates = False\<rparr> (js ''a - b'') rs =
              (case transform \<lparr>isLetter = (\<lambda>c. False), lenientDays = False, legacyDates = False\<rparr> (js ''a - b'') (take 12 rs) of
                 Inl e \<Rightarrow> Inl e
               | Inr w \<Rightarrow> transform \<lparr>isLetter = (\<lambda>c. False), lenientDays = False, legacyDates = False\<rparr> w (drop 12 rs))
        \<and> transform \<lparr>isLetter = (\<lambda>c. False), lenientDays = False, legacyDates = False\<rparr> (js ''a - b'') [] = Inr (js ''a - b'')
        \<and> transform \<lparr>isLetter = (\<lambda>c. False), lenientDays = False, legacyDates = False\<rparr> (js ''a - b'') rs =
              foldl (\<lambda>acc r. case acc of
                                Inl e \<Rightarrow> Inl e
                              | Inr w \<Rightarrow> replace \<lparr>isLetter = (\<lambda>c. False), lenientDays = False, legacyDates = False\<rparr> w (searchValueOf r) (replaceValueOf r))
                (Inr (js ''a - b'')) rs)"
proof -
  have k: "propertyKey (Some (js ''de'')) \<notin> set objectPrototypeKeys"
    by (rule language_keys)
  from rules_in_fixed_order [OF loaded_moduleHeap k,
      of "\<lparr>isLetter = (\<lambda>c. False), lenientDays = False, legacyDates = False\<rparr>" "js ''a - b''"]
  show ?thesis
    using loaded_moduleHeap k by (simp add: list_all_iff Ball_def)
qed

section \<open>What resolving and later writes leave unchanged\<close>

lemma lookup_prefix:
  assumes "take (length h) h' = h" and "a < length h"
  shows "lookup h' a = lookup h a"
proof -
  have "h' = h @ drop (length h) h'"
    using assms(1) by (metis append_take_drop_id)
  then have "h' ! a = h ! a" and "a < length h'"
    using assms(2) by (metis nth_append, metis length_append trans_less_add1)
  with assms(2) show ?thesis by (simp add: lookup_def)
qed

lemma those_Some_all: "those (map f xs) = Some ys \<Longrightarrow> \<forall>x \<in> set xs. f x \<noteq> None"
  by (induction xs arbitrary: ys) (auto split: option.splits)

lemma ruleAt_prefix:
  assumes "take (length h) h' = h" and "ruleAt h a \<noteq> None"
  shows "ruleAt h' a = ruleAt h a"
proof -
  from assms(2) have "a < length h"
    by (auto simp: ruleAt_def lookup_def split: if_splits)
  from lookup_prefix [OF assms(1) this] show ?thesis by (simp add: ruleAt_def)
qed

lemma rulesAt_prefix:
  assumes "take (length h) h' = h" and "rulesAt h b = Some rs"
  shows "rulesAt h' b = Some rs"
proof -
  from assms(2) obtain refs where l: "lookup h b = Some (ListObj refs)"
    and t: "those (map (ruleAt h) refs) = Some rs"
    by (auto simp: rulesAt_def split: option.splits obj.splits)
  from l have "b < length h" by (auto simp: lookup_def split: if_splits)
  from lookup_prefix [OF assms(1) this] l have l': "lookup h' b = Some (ListObj refs)" by simp
  from those_Some_all [OF t] have m: "map (ruleAt h') refs = map (ruleAt h) refs"
    using ruleAt_prefix [OF assms(1)] by (intro map_cong) auto
  show ?thesis
    unfolding rulesAt_def l' option.case obj.case m by (rule t)
qed

lemma loaded_prefix:
  assumes "loaded h" and "take (length h) h' = h"
  shows "loaded h'"
proof -
  from assms(1) obtain t where h: "h = moduleHeap @ t"
    using loaded_append by blast
  have "h' = h @ drop (length h) h'"
    using assms(2) by (metis append_take_drop_id)
  then have "h' = moduleHeap @ (t @ drop (length h) h')" by (simp add: h)
  then show ?thesis unfolding loaded_def by (metis append_eq_conv_conj)
qed

lemma write_above:
  assumes "take (length h) h' = h" and "length h \<le> k"
  shows "take (length h) (h'[k := obj]) = h"
  using assms by simp

lemma resolve_result:
  assumes "punctuationRulesForLanguage (moduleHeap @ t) language = Inr (h', rules)"
  shows "rules = 32 + length t
    \<and> (\<exists>o0 o2 o5 o11 extra. h' = (moduleHeap @ t) @ [o0, o2, o5, o11,
          ListObj ([28 + length t, 1, 29 + length t, 3, 4, 30 + length t, 6, 7, 8, 9, 10, 31 + length t] @ extra)])"
proof (cases "propertyKey language \<in> set objectPrototypeKeys")
  case True
  from resolve_inherited [OF True] assms show ?thesis by simp
next
  case False
  from resolve_own [OF False, of t] assms show ?thesis by auto
qed

text \<open>
  Claim C2, as amended. Resolving the rules of a language writes no object that existed before:
  the default rule table and every rule set resolved earlier read as before. The array returned
  is new, and the rules at the overridable indices 0, 2, 5 and 11 are new copies: any write to
  one of them, or to the returned array, leaves the default table and every earlier rule set
  unchanged. The rules at the other indices are the objects of the default table themselves.
\<close>

theorem resolving_copies_overridable_rules:
  assumes "loaded h" and "punctuationRulesForLanguage h language = Inr (h', rules)"
  shows "take (length h) h' = h
    \<and> rulesAt h' punctuationRules = Some defaultRules
    \<and> (\<forall>b rs. rulesAt h b = Some rs \<longrightarrow> rulesAt h' b = Some rs)
    \<and> length h \<le> rules
    \<and> (\<forall>obj. rulesAt (h'[rules := obj]) punctuationRules = Some defaultRules
          \<and> (\<forall>b rs. rulesAt h b = Some rs \<longrightarrow> rulesAt (h'[rules := obj]) b = Some rs))
    \<and> (\<exists>refs. lookup h' rules = Some (ListObj refs)
        \<and> (\<forall>i \<in> set overrideRuleIndices. length h \<le> refs ! i \<and> refs ! i < length h'
              \<and> (\<forall>obj. rulesAt (h'[refs ! i := obj]) punctuationRules = Some defaultRules
                    \<and> (\<forall>b rs. rulesAt h b = Some rs \<longrightarrow> rulesAt (h'[refs ! i := obj]) b = Some rs)))
        \<and> (\<forall>i < 12. i \<notin> set overrideRuleIndices \<longrightarrow> refs ! i = i \<and> ruleAt h' i = Some (defaultRules ! i)))"
proof -
  from assms(1) obtain t where h: "h = moduleHeap @ t"
    using loaded_append by blast
  from resolve_result [OF assms(2) [unfolded h]] obtain o0 o2 o5 o11 extra where
    r: "rules = 32 + length t"
    and h': "h' = (moduleHeap @ t) @ [o0, o2, o5, o11,
          ListObj ([28 + length t, 1, 29 + length t, 3, 4, 30 + length t, 6, 7, 8, 9, 10, 31 + length t] @ extra)]"
    by blast
  let ?refs = "[28 + length t, 1, 29 + length t, 3, 4, 30 + length t, 6, 7, 8, 9, 10, 31 + length t] @ extra"
  have n: "length h = 28 + length t" by (simp add: h length_moduleHeap)
  have p: "take (length h) h' = h" by (simp add: h h')
  have frame: "rulesAt (h'[k := obj]) punctuationRules = Some defaultRules
      \<and> (\<forall>b rs. rulesAt h b = Some rs \<longrightarrow> rulesAt (h'[k := obj]) b = Some rs)"
    if "length h \<le> k" for k obj
  proof -
    from write_above [OF p that] have q: "take (length h) (h'[k := obj]) = h" .
    from defaults_stored [OF loaded_prefix [OF assms(1) q]] rulesAt_prefix [OF q]
    show ?thesis by blast
  qed
  have l: "lookup h' rules = Some (ListObj ?refs)"
    by (simp add: h' r lookup_def nth_append length_moduleHeap)
  have fresh: "\<forall>i \<in> set overrideRuleIndices. length h \<le> ?refs ! i \<and> ?refs ! i < length h'"
    by (simp add: overrideRuleIndices_def n h' length_moduleHeap)
  have shared: "\<forall>i < 12. i \<notin> set overrideRuleIndices \<longrightarrow> ?refs ! i = i \<and> ruleAt h' i = Some (defaultRules ! i)"
  proof (intro allI impI)
    fix i :: nat assume "i < 12" and "i \<notin> set overrideRuleIndices"
    then have "i = 1 \<or> i = 3 \<or> i = 4 \<or> i = 6 \<or> i = 7 \<or> i = 8 \<or> i = 9 \<or> i = 10"
      by (simp add: overrideRuleIndices_def) arith
    then show "?refs ! i = i \<and> ruleAt h' i = Some (defaultRules ! i)"
      by (elim disjE)
        (simp_all add: h' ruleAt_def lookup_loaded moduleHeap_nth moduleHeap_nth(2) [unfolded One_nat_def])
  qed
  have 1: "rulesAt h' punctuationRules = Some defaultRules"
    by (rule defaults_stored [OF loaded_prefix [OF assms(1) p]])
  have 2: "\<forall>b rs. rulesAt h b = Some rs \<longrightarrow> rulesAt h' b = Some rs"
    using rulesAt_prefix [OF p] by blast
  have 3: "length h \<le> rules" by (simp add: n r)
  have 4: "\<forall>obj. rulesAt (h'[rules := obj]) punctuationRules = Some defaultRules
          \<and> (\<forall>b rs. rulesAt h b = Some rs \<longrightarrow> rulesAt (h'[rules := obj]) b = Some rs)"
    using frame [OF 3] by blast
  have 5: "\<forall>i \<in> set overrideRuleIndices. length h \<le> ?refs ! i \<and> ?refs ! i < length h'
              \<and> (\<forall>obj. rulesAt (h'[?refs ! i := obj]) punctuationRules = Some defaultRules
                    \<and> (\<forall>b rs. rulesAt h b = Some rs \<longrightarrow> rulesAt (h'[?refs ! i := obj]) b = Some rs))"
    using fresh frame by blast
  from l 5 shared have 6: "\<exists>refs. lookup h' rules = Some (ListObj refs)
        \<and> (\<forall>i \<in> set overrideRuleIndices. length h \<le> refs ! i \<and> refs ! i < length h'
              \<and> (\<forall>obj. rulesAt (h'[refs ! i := obj]) punctuationRules = Some defaultRules
                    \<and> (\<forall>b rs. rulesAt h b = Some rs \<longrightarrow> rulesAt (h'[refs ! i := obj]) b = Some rs)))
        \<and> (\<forall>i < 12. i \<notin> set overrideRuleIndices \<longrightarrow> refs ! i = i \<and> ruleAt h' i = Some (defaultRules ! i))"
    by (intro exI [of _ ?refs] conjI)
  from p 1 2 3 4 6 show ?thesis by (intro conjI)
qed

theorem resolving_copies_overridable_rules_witness:
  "loaded moduleHeap
   \<and> punctuationRulesForLanguage moduleHeap (Some (js ''fr''))
      = Inr (fst (projr (punctuationRulesForLanguage moduleHeap (Some (js ''fr'')))),
             snd (projr (punctuationRulesForLanguage moduleHeap (Some (js ''fr'')))))
   \<and> take (length moduleHeap) (fst (projr (punctuationRulesForLanguage moduleHeap (Some (js ''fr'')))))
      = moduleHeap
   \<and> rulesAt (fst (projr (punctuationRulesForLanguage moduleHeap (Some (js ''fr''))))) punctuationRules
      = Some defaultRules
   \<and> length moduleHeap \<le> snd (projr (punctuationRulesForLanguage moduleHeap (Some (js ''fr''))))
   \<and> rulesAt ((fst (projr (punctuationRulesForLanguage moduleHeap (Some (js ''fr'')))))
         [snd (projr (punctuationRulesForLanguage moduleHeap (Some (js ''fr'')))) := ListObj []])
        punctuationRules = Some defaultRules"
proof -
  from resolved [OF loaded_moduleHeap language_keys(1)] obtain h' a where
    r: "punctuationRulesForLanguage moduleHeap (Some (js ''fr'')) = Inr (h', a)"
    by blast
  from resolving_copies_overridable_rules [OF loaded_moduleHeap r]
  have "take (length moduleHeap) h' = moduleHeap"
    and "rulesAt h' punctuationRules = Some defaultRules"
    and "length moduleHeap \<le> a"
    and "rulesAt (h'[a := ListObj []]) punctuationRules = Some defaultRules"
    by blast+
  with loaded_moduleHeap show ?thesis by (simp add: r)
qed

text \<open>
  The claim as stated fails for a rule that is not overridable. In the rule set resolved for no
  language, the rule at index 1 is the object at address 1, the same object the default table
  holds at index 1: after a write to it the default table no longer reads as the default rules.
\<close>

theorem shared_rule_counterexample:
  "lookup moduleHeap punctuationRules = Some (ListObj [0, 1, 2, 3, 4, 5, 6, 7, 8, 9, 10, 11])
   \<and> lookup (fst (projr (punctuationRulesForLanguage moduleHeap None)))
        (snd (projr (punctuationRulesForLanguage moduleHeap None)))
      = Some (ListObj [28, 1, 29, 3, 4, 30, 6, 7, 8, 9, 10, 31])
   \<and> rulesAt moduleHeap punctuationRules = Some defaultRules
   \<and> rulesAt ((fst (projr (punctuationRulesForLanguage moduleHeap None)))
         [1 := RuleObj (Rule specialCaseN (Template []))]) punctuationRules
      \<noteq> Some defaultRules"
proof -
  have e: "extraRefs (propertyKey None) = []"
    by (simp add: extraRefs_def propertyKey_def js_def)
  from resolve_own [OF language_keys(3), of "[]"] obtain o0 o2 o5 o11 where
    r: "punctuationRulesForLanguage moduleHeap None
      = Inr (moduleHeap @ [o0, o2, o5, o11, ListObj [28, 1, 29, 3, 4, 30, 6, 7, 8, 9, 10, 31]], 32)"
    by (simp add: e)
  have 1: "lookup moduleHeap punctuationRules = Some (ListObj [0, 1, 2, 3, 4, 5, 6, 7, 8, 9, 10, 11])"
    using lookup_loaded [of 12 "[]"] by (simp add: punctuationRules_def moduleHeap_nth)
  have 2: "lookup (fst (projr (punctuationRulesForLanguage moduleHeap None)))
        (snd (projr (punctuationRulesForLanguage moduleHeap None)))
      = Some (ListObj [28, 1, 29, 3, 4, 30, 6, 7, 8, 9, 10, 31])"
    by (simp add: r lookup_def nth_append length_moduleHeap)
  have 3: "rulesAt moduleHeap punctuationRules = Some defaultRules"
    by (rule defaults_stored [OF loaded_moduleHeap])
  let ?h = "(moduleHeap @ [o0, o2, o5, o11, ListObj [28, 1, 29, 3, 4, 30, 6, 7, 8, 9, 10, 31]])
      [1 := RuleObj (Rule specialCaseN (Template []))]"
  have "ruleAt ?h 1 = Some (Rule specialCaseN (Template []))"
    by (simp add: ruleAt_def lookup_def length_moduleHeap)
  moreover have "rulesAt ?h punctuationRules = Some defaultRules \<Longrightarrow> ruleAt ?h 1 = Some (defaultRules ! 1)"
    by (simp add: rulesAt_def punctuationRules_def lookup_def length_moduleHeap nth_append
        list_update_append moduleHeap_nth defaultRules_def split: option.splits)
  ultimately have 4: "rulesAt ?h punctuationRules \<noteq> Some defaultRules"
    by (auto simp: defaultRules_def)
  from 1 2 3 4 show ?thesis by (simp add: r)
qed

section \<open>No apostrophe is left\<close>

subsection \<open>Replacers that cannot raise\<close>

fun total :: "replacer \<Rightarrow> bool" where
  "total (Template t) = True"
| "total (Function f) = (f = DateHyphens \<or> f = FigureDashes)"

lemma replacement_total: "total rep \<Longrightarrow> \<exists>t. replacement H u n rep s m = Inr t"
  by (cases rep; cases m) (auto simp: replacement_def)

lemma substitute_total: "total rep \<Longrightarrow> \<exists>out. substitute H u n rep s pos found = Inr out"
proof (induction found arbitrary: pos)
  case Nil
  show ?case by simp
next
  case (Cons m found)
  from replacement_total [OF Cons.prems] obtain t where "replacement H u n rep s m = Inr t"
    by blast
  moreover from Cons.IH [OF Cons.prems] obtain rest where
    "substitute H u n rep s (fst (snd m)) found = Inr rest"
    by blast
  ultimately show ?case by simp
qed

lemma replace_total: "total rep \<Longrightarrow> \<exists>out. replace H v re rep = Inr out"
  unfolding replace_def Let_def by (rule substitute_total)

lemma transform_total:
  "\<forall>r \<in> set rs. total (replaceValueOf r) \<Longrightarrow> \<exists>out. transform H v rs = Inr out"
proof (induction rs arbitrary: v)
  case Nil
  show ?case by simp
next
  case (Cons r rs)
  obtain s rep where r: "r = Rule s rep" by (cases r)
  with Cons.prems have "total rep" by simp
  from replace_total [OF this] obtain w where "replace H v s rep = Inr w"
    by blast
  moreover from Cons have "\<exists>out. transform H w rs = Inr out" by simp
  ultimately show ?case by (simp add: r)
qed

subsection \<open>Replacers that bring in no apostrophe\<close>

definition clean :: "bool \<Rightarrow> nat list \<Rightarrow> bool" where
  "clean u cs = (0x27 \<notin> set (fromInput u cs))"

lemma fromInput_append: "fromInput u (xs @ ys) = fromInput u xs @ fromInput u ys"
  by (simp add: fromInput_def)

lemma clean_append: "clean u (xs @ ys) \<longleftrightarrow> clean u xs \<and> clean u ys"
  by (auto simp: clean_def fromInput_append)

lemma clean_take: "clean u cs \<Longrightarrow> clean u (take n cs)"
  using clean_append [of u "take n cs" "drop n cs"] by simp

lemma clean_drop: "clean u cs \<Longrightarrow> clean u (drop n cs)"
  using clean_append [of u "take n cs" "drop n cs"] by simp

lemma clean_slice: "clean u cs \<Longrightarrow> clean u (slice cs b e)"
  unfolding slice_def by (intro clean_take clean_drop)

lemma clean_toInput: "0x27 \<notin> set v \<Longrightarrow> clean u (toInput u v)"
  by (simp add: clean_def fromInput_toInput)

fun cleanReplacer :: "replacer \<Rightarrow> bool" where
  "cleanReplacer (Template t) = (0x27 \<notin> set t)"
| "cleanReplacer (Function f) = (f = DateHyphens \<or> f = FigureDashes)"

lemma cleanReplacer_total: "cleanReplacer rep \<Longrightarrow> total rep"
  by (cases rep) auto

lemma captureText_clean:
  "\<forall>x. Some x \<in> set cs \<longrightarrow> 0x27 \<notin> set x \<Longrightarrow> 1 \<le> n \<Longrightarrow> n \<le> length cs \<Longrightarrow>
   0x27 \<notin> set (captureText cs n)"
proof -
  assume a: "\<forall>x. Some x \<in> set cs \<longrightarrow> 0x27 \<notin> set x" and "1 \<le> n" and "n \<le> length cs"
  then have "cs ! (n - 1) \<in> set cs" by simp
  with a show ?thesis by (auto simp: captureText_def split: option.splits)
qed

lemma getSubstitution_clean:
  assumes "0x27 \<notin> set m" and "0x27 \<notin> set p" and "0x27 \<notin> set f"
    and "\<forall>x. Some x \<in> set cs \<longrightarrow> 0x27 \<notin> set x"
  shows "0x27 \<notin> set t \<Longrightarrow> 0x27 \<notin> set (getSubstitution m p f cs t)"
proof (induction "length t" arbitrary: t rule: less_induct)
  case less
  have c: "0x27 \<notin> set (captureText cs n)" if "1 \<le> n" "n \<le> length cs" for n
    using captureText_clean [OF assms(4) that] .
  show ?case
  proof (cases t)
    case Nil
    then show ?thesis by simp
  next
    case (Cons x t1)
    show ?thesis
    proof (cases t1)
      case Nil
      with Cons less.prems show ?thesis by simp
    next
      case t1: (Cons y t0)
      from less.prems have xy: "x \<noteq> 0x27" "y \<noteq> 0x27" and t0: "0x27 \<notin> set t0"
        by (auto simp: Cons t1)
      have a1: "0x27 \<notin> set (getSubstitution m p f cs (y # t0))"
        using less.hyps [of "y # t0"] xy t0 by (simp add: Cons t1)
      have a2: "0x27 \<notin> set (getSubstitution m p f cs t0)"
        using less.hyps [of t0] t0 by (simp add: Cons t1)
      have a3: "0x27 \<notin> set (getSubstitution m p f cs t')" if "t0 = z # t'" for z t'
        using less.hyps [of t'] t0 that by (simp add: Cons t1)
      have a4: "z \<noteq> 0x27" if "t0 = z # t'" for z t'
        using t0 that by auto
      show ?thesis
        unfolding Cons t1 getSubstitution.simps
        using a1 a2 a3 a4 c assms(1-3) xy
        by (auto simp del: getSubstitution.simps split: list.splits)
    qed
  qed
qed

lemma capture_clean: "clean u s \<Longrightarrow> Some x \<in> set (map (capture u s c) ks) \<Longrightarrow> 0x27 \<notin> set x"
proof -
  assume s: "clean u s" and "Some x \<in> set (map (capture u s c) ks)"
  then obtain k where "capture u s c k = Some x" by auto
  then obtain b e where "x = fromInput u (slice s b e)"
    by (auto simp: capture_def)
  with clean_slice [OF s, of b e] show ?thesis by (simp add: clean_def)
qed

lemma replaceAll_clean: "0x27 \<notin> set m \<Longrightarrow> b \<noteq> 0x27 \<Longrightarrow> 0x27 \<notin> set (replaceAll a b m)"
  by (auto simp: replaceAll_def)

lemma replacement_clean:
  assumes "clean u s" and "cleanReplacer rep" and "replacement H u n rep s m = Inr t"
  shows "0x27 \<notin> set t"
proof -
  obtain q e c where m: "m = (q, e, c)" by (cases m)
  have a: "0x27 \<notin> set (fromInput u (slice s q e))" "0x27 \<notin> set (fromInput u (take q s))"
    "0x27 \<notin> set (fromInput u (drop e s))"
    using clean_slice [OF assms(1)] clean_take [OF assms(1)] clean_drop [OF assms(1)]
    by (simp_all add: clean_def)
  have b: "\<forall>x. Some x \<in> set (map (capture u s c) [1..<Suc n]) \<longrightarrow> 0x27 \<notin> set x"
    using capture_clean [OF assms(1)] by blast
  show ?thesis
  proof (cases rep)
    case (Template tpl)
    with assms(2) have "0x27 \<notin> set tpl" by simp
    from getSubstitution_clean [OF a b this] assms(3) show ?thesis
      by (simp add: replacement_def m Template)
  next
    case (Function f)
    with assms(2) have "f = DateHyphens \<or> f = FigureDashes" by simp
    with assms(3) a(1) show ?thesis
      by (auto simp: replacement_def m Function replaceAll_clean split: if_splits)
  qed
qed

lemma substitute_clean:
  assumes "clean u s" and "cleanReplacer rep"
  shows "substitute H u n rep s pos found = Inr out \<Longrightarrow> 0x27 \<notin> set out"
proof (induction found arbitrary: pos out)
  case Nil
  with clean_drop [OF assms(1), of pos] show ?case by (simp add: clean_def)
next
  case (Cons m found)
  from Cons.prems obtain t rest where
    t: "replacement H u n rep s m = Inr t"
    and r: "substitute H u n rep s (fst (snd m)) found = Inr rest"
    and o: "out = fromInput u (slice s pos (fst m)) @ t @ rest"
    by (auto split: sum.splits)
  from clean_slice [OF assms(1), of pos "fst m"] replacement_clean [OF assms t] Cons.IH [OF r]
  show ?case by (simp add: o clean_def)
qed

lemma replace_clean:
  assumes "0x27 \<notin> set v" and "cleanReplacer rep" and "replace H v re rep = Inr out"
  shows "0x27 \<notin> set out"
  using assms(3) unfolding replace_def Let_def
  by (rule substitute_clean [OF clean_toInput [OF assms(1)] assms(2)])

lemma transform_clean:
  "0x27 \<notin> set v \<Longrightarrow> \<forall>r \<in> set rs. cleanReplacer (replaceValueOf r) \<Longrightarrow>
   \<exists>out. transform H v rs = Inr out \<and> 0x27 \<notin> set out"
proof (induction rs arbitrary: v)
  case Nil
  then show ?case by simp
next
  case (Cons r rs)
  obtain s rep where r: "r = Rule s rep" by (cases r)
  with Cons.prems have c: "cleanReplacer rep" by simp
  from replace_total [OF cleanReplacer_total [OF c]] obtain w where w: "replace H v s rep = Inr w"
    by blast
  from replace_clean [OF Cons.prems(1) c w] Cons have "\<exists>out. transform H w rs = Inr out \<and> 0x27 \<notin> set out"
    by simp
  with w show ?case by (simp add: r)
qed

subsection \<open>The apostrophe rule replaces every apostrophe\<close>

lemma search_Some:
  "search L ic r s p = Some (q, e, c) \<Longrightarrow>
   p \<le> q \<and> q \<le> length s \<and> (\<exists>rest. ms L ic True r s q (\<lambda>k. None) = (e, c) # rest)
   \<and> (\<forall>j. p \<le> j \<and> j < q \<longrightarrow> ms L ic True r s j (\<lambda>k. None) = [])"
proof (induction L ic r s p rule: search.induct)
  case (1 L ic r s p)
  show ?case
  proof (cases "ms L ic True r s p (\<lambda>k. None)")
    case Nil
    with "1.prems" have le: "\<not> length s < p" and rec: "search L ic r s (Suc p) = Some (q, e, c)"
      by (auto simp: search.simps [of L ic r s p] split: if_splits)
    from "1.IH" [OF le Nil rec] have pq: "Suc p \<le> q" and ql: "q \<le> length s"
      and at: "\<exists>rest. ms L ic True r s q (\<lambda>k. None) = (e, c) # rest"
      and gap: "\<forall>j. Suc p \<le> j \<and> j < q \<longrightarrow> ms L ic True r s j (\<lambda>k. None) = []"
      by blast+
    have "ms L ic True r s j (\<lambda>k. None) = []" if "p \<le> j" "j < q" for j
    proof (cases "j = p")
      case True
      with Nil show ?thesis by simp
    next
      case False
      with that gap show ?thesis by simp
    qed
    with pq ql at show ?thesis by simp
  next
    case (Cons x xs)
    with "1.prems" show ?thesis
      by (cases x) (auto simp: search.simps [of L ic r s p] split: if_splits)
  qed
qed

lemma search_None:
  "search L ic r s p = None \<Longrightarrow> p \<le> j \<Longrightarrow> j \<le> length s \<Longrightarrow> ms L ic True r s j (\<lambda>k. None) = []"
proof (induction L ic r s p rule: search.induct)
  case (1 L ic r s p)
  from "1.prems" have le: "\<not> length s < p" by simp
  show ?case
  proof (cases "ms L ic True r s p (\<lambda>k. None)")
    case Nil
    with "1.prems"(1) le have rec: "search L ic r s (Suc p) = None"
      by (simp add: search.simps [of L ic r s p])
    show ?thesis
    proof (cases "j = p")
      case True
      with Nil show ?thesis by simp
    next
      case False
      with "1.prems"(2) have "Suc p \<le> j" by simp
      from "1.IH" [OF le Nil rec this "1.prems"(3)] show ?thesis .
    qed
  next
    case (Cons x xs)
    with "1.prems"(1) le show ?thesis
      by (cases x) (simp add: search.simps [of L ic r s p])
  qed
qed

lemma chr_match:
  "ms L False True (Chr ch) s p c = (if p < length s \<and> s ! p = ch then [(Suc p, c)] else [])"
  by (simp add: step_def charEq_def)

lemma unat_apostrophe: "unat (u :: 16 word) = 39 \<Longrightarrow> u = 0x27"
proof -
  assume "unat u = 39"
  then have "(of_nat (unat u) :: 16 word) = of_nat 39" by (simp only:)
  then show ?thesis by simp
qed

lemma units_between:
  assumes "x \<in> set (map of_nat (slice (map unat v) p q))"
  shows "\<exists>j. p \<le> j \<and> j < q \<and> j < length v \<and> (v :: jsstring) ! j = x"
proof -
  have "map of_nat (slice (map unat v) p q) = take (q - p) (drop p v)"
    by (simp add: slice_def take_map drop_map comp_def)
  with assms obtain i where "i < length (take (q - p) (drop p v))"
    and "take (q - p) (drop p v) ! i = x"
    by (auto simp: in_set_conv_nth)
  then have "p + i < q \<and> p + i < length v \<and> v ! (p + i) = x" by auto
  then show ?thesis by (intro exI [of _ "p + i"]) simp
qed

lemma units_from:
  assumes "x \<in> set (map of_nat (drop p (map unat v)))"
  shows "\<exists>j. p \<le> j \<and> j < length v \<and> (v :: jsstring) ! j = x"
proof -
  have "map of_nat (drop p (map unat v)) = drop p v"
    by (simp add: drop_map comp_def)
  with assms obtain i where "i < length (drop p v)" and "drop p v ! i = x"
    by (auto simp: in_set_conv_nth)
  then have "p + i < length v \<and> v ! (p + i) = x" by auto
  then show ?thesis by (intro exI [of _ "p + i"]) simp
qed

lemma apostrophes_substituted:
  assumes "x \<noteq> 0x27"
  shows "substitute H False 0 (Template [x]) (map unat (v :: jsstring)) p
           (allMatches L False (Chr 39) (map unat v) p) = Inr out \<Longrightarrow> 0x27 \<notin> set out"
proof (induction "Suc (length v) - p" arbitrary: p out rule: less_induct)
  case less
  let ?s = "map unat v"
  show ?case
  proof (cases "search L False (Chr 39) ?s p")
    case None
    with less.prems have out: "out = map of_nat (drop p ?s)"
      by (simp add: allMatches.simps [of _ _ _ _ p] fromInput_def)
    show ?thesis
    proof
      assume "0x27 \<in> set out"
      from units_from [OF this [unfolded out]] obtain j where j: "p \<le> j" "j < length v" "v ! j = 0x27"
        by blast
      from search_None [OF None j(1), unfolded chr_match] j(2,3) show False by simp
    qed
  next
    case (Some m)
    obtain q e c where m: "m = (q, e, c)" by (cases m)
    from search_Some [OF Some [unfolded m]] have pq: "p \<le> q"
      and at: "\<exists>rest. ms L False True (Chr 39) ?s q (\<lambda>k. None) = (e, c) # rest"
      and gap: "\<forall>j. p \<le> j \<and> j < q \<longrightarrow> ms L False True (Chr 39) ?s j (\<lambda>k. None) = []"
      by blast+
    from at [unfolded chr_match] have q: "q < length v" and e: "e = Suc q"
      by (auto split: if_splits)
    have all: "allMatches L False (Chr 39) ?s p = (q, e, c) # allMatches L False (Chr 39) ?s (Suc q)"
      by (simp add: allMatches.simps [of _ _ _ _ p] Some m e)
    from less.prems [unfolded all] obtain rest where
      rest: "substitute H False 0 (Template [x]) ?s (Suc q) (allMatches L False (Chr 39) ?s (Suc q)) = Inr rest"
      and out: "out = map of_nat (slice ?s p q) @ [x] @ rest"
      by (auto simp: replacement_def fromInput_def e split: sum.splits)
    have "Suc (length v) - Suc q < Suc (length v) - p"
      using pq q by simp
    from less.hyps [OF this rest] have r: "0x27 \<notin> set rest" .
    have "(0x27 :: 16 word) \<notin> set (map of_nat (slice ?s p q))"
    proof
      assume "(0x27 :: 16 word) \<in> set (map of_nat (slice ?s p q))"
      from units_between [OF this] obtain j where j: "p \<le> j" "j < q" "j < length v" "v ! j = 0x27"
        by blast
      from spec [OF gap [unfolded chr_match], of j] j show False by simp
    qed
    with r assms show ?thesis by (simp add: out)
  qed
qed

lemma apostrophes_removed:
  assumes "x \<noteq> 0x27"
  shows "\<exists>out. replace H v apostrophes (Template [x]) = Inr out \<and> 0x27 \<notin> set out"
proof -
  from replace_total [of "Template [x]" H v apostrophes] obtain out where
    out: "replace H v apostrophes (Template [x]) = Inr out"
    by auto
  then have "substitute H False 0 (Template [x]) (map unat v) 0
      (allMatches (isLetter H) False (Chr 39) (map unat v) 0) = Inr out"
    by (simp add: replace_def apostrophes_def rx_def toInput_def groupCount_def Let_def
        del: allMatches.simps search.simps)
  from apostrophes_substituted [OF assms this] out show ?thesis by blast
qed

subsection \<open>The resolved rules leave no apostrophe\<close>

lemma apostrophe_override:
  "\<exists>x. overrideValue key 2 (Template [0x2019]) = Template [x] \<and> x \<noteq> 0x27"
  by (simp add: overrideValue_def languageSpecificOverrides_def)

lemma hyphen_override: "cleanReplacer (overrideValue key 3 (Template [0x2010]))"
  by (simp add: overrideValue_def languageSpecificOverrides_def)

lemma quote_overrides_total: "total (overrideValue key k (Template d))"
  by (simp add: overrideValue_def split: option.splits)

lemma extraRules_clean: "\<forall>r \<in> set (extraRules key). cleanReplacer (replaceValueOf r)"
  by (simp add: extraRules_def germanRules_def japaneseRules_def hebrewRules_def js_def)

lemma resolvedRules_no_apostrophe:
  "\<exists>out. transform H v (resolvedRules key) = Inr out \<and> 0x27 \<notin> set out"
proof -
  let ?A = "[Rule doubleQuotedText (overrideValue key 0 (Template (0x201C # js ''$1'' @ [0x201D]))),
      Rule specialCaseN (Template (0x2019 # js ''$1'' @ [0x2019])),
      Rule singleQuotedText (overrideValue key 1 (Template (0x2018 # js ''$1'' @ [0x2019]))),
      Rule doublePrimes (Template (js ''$1'' @ [0x2033])),
      Rule singlePrimes (Template (js ''$1'' @ [0x2032] @ js ''$2''))]"
  let ?B = "[Rule ellipses (Template [0x2026]),
      Rule dashSeparator (Template [0x20, 0x2013, 0x20]),
      Rule isoDates (Function DateHyphens),
      Rule groupedDigits (Function FigureDashes),
      Rule ranges (Template (js ''$1'' @ [0x2013] @ js ''$2'')),
      Rule hyphens (overrideValue key 3 (Template [0x2010]))] @ extraRules key"
  from apostrophe_override [of key] obtain x where
    x: "overrideValue key 2 (Template [0x2019]) = Template [x]" and n: "x \<noteq> 0x27"
    by blast
  have rs: "resolvedRules key = ?A @ Rule apostrophes (Template [x]) # ?B"
    unfolding resolvedRules_cons x by simp
  have "\<forall>r \<in> set ?A. total (replaceValueOf r)"
    by (simp add: quote_overrides_total)
  from transform_total [OF this] obtain w where w: "transform H v ?A = Inr w"
    by blast
  from apostrophes_removed [OF n] obtain u where
    u: "replace H w apostrophes (Template [x]) = Inr u" and c: "0x27 \<notin> set u"
    by blast
  have "\<forall>r \<in> set ?B. cleanReplacer (replaceValueOf r)"
    using extraRules_clean [of key] hyphen_override [of key] by (simp add: js_def)
  from transform_clean [OF c this] obtain out where
    out: "transform H u ?B = Inr out" and "0x27 \<notin> set out"
    by blast
  moreover have "transform H v (resolvedRules key) = Inr out"
  proof -
    have "transform H v (?A @ Rule apostrophes (Template [x]) # ?B) =
        (case transform H v ?A of
           Inl e \<Rightarrow> Inl e
         | Inr w \<Rightarrow> transform H w (Rule apostrophes (Template [x]) # ?B))"
      by (rule transform_append)
    also have "\<dots> = transform H w (Rule apostrophes (Template [x]) # ?B)"
      by (simp only: w sum.case)
    also have "\<dots> = transform H u ?B"
      by (simp only: transform.simps(2) [of H w apostrophes "Template [x]" ?B] u sum.case)
    also note out
    finally show ?thesis by (simp only: rs)
  qed
  ultimately show ?thesis by blast
qed

lemma resolved_key:
  assumes "punctuationRulesForLanguage (moduleHeap @ t) language = Inr (h', a)"
  shows "propertyKey language \<notin> set objectPrototypeKeys"
proof
  assume "propertyKey language \<in> set objectPrototypeKeys"
  from resolve_inherited [OF this, of t] assms show False by simp
qed

text \<open>
  Claim C10. With the module's objects as loaded, whenever \<open>punctuationRulesForLanguage\<close>
  returns a rule set for a language, \<open>transform\<close> with that rule set returns, on every host and for
  every input, an output without the apostrophe U+0027.
\<close>

theorem no_apostrophe_left:
  assumes "loaded h" and "punctuationRulesForLanguage h language = Inr (h', a)"
  shows "\<exists>rs out. rulesAt h' a = Some rs \<and> transform H v rs = Inr out \<and> 0x27 \<notin> set out"
proof -
  from assms(1) obtain t where h: "h = moduleHeap @ t"
    using loaded_append by blast
  from resolved_key [OF assms(2) [unfolded h]]
  have k: "propertyKey language \<notin> set objectPrototypeKeys" .
  from resolved [OF assms(1) k] assms(2)
  have "rulesAt h' a = Some (resolvedRules (propertyKey language))"
    by auto
  with resolvedRules_no_apostrophe [of H v "propertyKey language"] show ?thesis
    by blast
qed

theorem no_apostrophe_left_witness:
  "loaded moduleHeap
   \<and> punctuationRulesForLanguage moduleHeap (Some (js ''he''))
      = Inr (fst (projr (punctuationRulesForLanguage moduleHeap (Some (js ''he'')))),
             snd (projr (punctuationRulesForLanguage moduleHeap (Some (js ''he'')))))
   \<and> (\<exists>rs out. rulesAt (fst (projr (punctuationRulesForLanguage moduleHeap (Some (js ''he'')))))
          (snd (projr (punctuationRulesForLanguage moduleHeap (Some (js ''he''))))) = Some rs
        \<and> transform \<lparr>isLetter = (\<lambda>c. False), lenientDays = False, legacyDates = False\<rparr>
            (js ''rock '' @ [0x27] @ js ''n'' @ [0x27] @ js '' roll, 7'' @ [0x27] @ js ''s'') rs = Inr out
        \<and> 0x27 \<notin> set out)"
proof -
  have k: "propertyKey (Some (js ''he'')) \<notin> set objectPrototypeKeys"
    by (simp add: propertyKey_def objectPrototypeKeys_def js_def)
  from resolved [OF loaded_moduleHeap k] obtain h' a where
    r: "punctuationRulesForLanguage moduleHeap (Some (js ''he'')) = Inr (h', a)"
    by blast
  from no_apostrophe_left [OF loaded_moduleHeap r] loaded_moduleHeap show ?thesis
    by (simp add: r)
qed

section \<open>Groups of digits\<close>

subsection \<open>The first match of a greedy repetition\<close>








subsection \<open>A run of digits\<close>






subsection \<open>Groups of digits after hyphens\<close>









subsection \<open>Counting a character that every match needs\<close>













subsection \<open>A single match that covers the whole input\<close>


subsection \<open>The inputs: groups of digits joined by a character\<close>










subsection \<open>The rule for grouped digits\<close>






subsection \<open>The rule for ranges\<close>




subsection \<open>Two groups against three or more\<close>











end
